theory Spec2Isabelle
  imports Main "HOL-Library.Word" "HOL-Library.Multiset" "HOL-Library.Log_Nat"
begin

section \<open>The Python runtime operations the two programs call\<close>

text \<open>
  A Python \<open>str\<close> is a sequence of code points and is modelled as a list of naturals;
  \<open>bytes\<close> is a list of 8-bit words. \<open>str\<close> turns an ASCII literal of the source
  into its code points.
\<close>

type_synonym pystr = "nat list"
type_synonym byte = "8 word"

definition str :: "string \<Rightarrow> pystr" where
  "str s = map of_char s"

text \<open>The bytes of an ASCII text, as \<open>s.encode('utf-8')\<close> gives them.\<close>

definition ascii_bytes :: "string \<Rightarrow> byte list" where
  "ascii_bytes s = map of_char s"

text \<open>
  The exceptions that can occur in the two programs. A \<open>ValueError\<close> carries its
  message: the one the service raises itself for a line of the wrong shape, or the one of
  \<open>float()\<close>, each with the text it quotes. \<open>UnicodeDecodeError\<close> and
  \<open>UnicodeEncodeError\<close> are subclasses of \<open>ValueError\<close> in Python.
\<close>

datatype message = MalformedDataStructure pystr | CouldNotConvertToFloat pystr

datatype exn =
    ValueError message
  | IndexError
  | UnicodeDecodeError
  | UnicodeEncodeError
  | OSError
  | TypeError
  | SerialException
  | KeyboardInterrupt

subsection \<open>\<open>bytes.decode('utf-8')\<close>\<close>

text \<open>
  The strict UTF-8 decoder: shortest forms only, no surrogates, nothing above U+10FFFF.
  \<open>utf8\<close> gives the code points of a byte sequence, or \<open>None\<close> when it is not valid.
\<close>

definition cont :: "nat \<Rightarrow> bool" where
  "cont b = (128 \<le> b \<and> b \<le> 191)"

text \<open>The range allowed for the second byte after the lead byte \<open>b\<close>.\<close>

definition second_lo :: "nat \<Rightarrow> nat" where
  "second_lo b = (if b = 224 then 160 else if b = 240 then 144 else 128)"

definition second_hi :: "nat \<Rightarrow> nat" where
  "second_hi b = (if b = 237 then 159 else if b = 244 then 143 else 191)"

definition second_ok :: "nat \<Rightarrow> nat \<Rightarrow> bool" where
  "second_ok b b1 = (second_lo b \<le> b1 \<and> b1 \<le> second_hi b)"

fun utf8 :: "nat list \<Rightarrow> pystr option" where
  "utf8 [] = Some []"
| "utf8 (b # bs) =
     (if b < 128 then map_option ((#) b) (utf8 bs)
      else if 194 \<le> b \<and> b \<le> 223 then
        (case bs of
           b1 # r \<Rightarrow>
             if cont b1 then map_option ((#) ((b - 192) * 64 + (b1 - 128))) (utf8 r)
             else None
         | _ \<Rightarrow> None)
      else if 224 \<le> b \<and> b \<le> 239 then
        (case bs of
           b1 # b2 # r \<Rightarrow>
             if second_ok b b1 \<and> cont b2
             then map_option ((#) ((b - 224) * 4096 + (b1 - 128) * 64 + (b2 - 128))) (utf8 r)
             else None
         | _ \<Rightarrow> None)
      else if 240 \<le> b \<and> b \<le> 244 then
        (case bs of
           b1 # b2 # b3 # r \<Rightarrow>
             if second_ok b b1 \<and> cont b2 \<and> cont b3
             then map_option
                    ((#) ((b - 240) * 262144 + (b1 - 128) * 4096 + (b2 - 128) * 64 + (b3 - 128)))
                    (utf8 r)
             else None
         | _ \<Rightarrow> None)
      else None)"

text \<open>\<open>bs.decode('utf-8')\<close>: the code points, or \<open>UnicodeDecodeError\<close>.\<close>

definition decode_utf8 :: "byte list \<Rightarrow> exn + pystr" where
  "decode_utf8 bs = (case utf8 (map unat bs) of None \<Rightarrow> Inl UnicodeDecodeError | Some cs \<Rightarrow> Inr cs)"

subsection \<open>\<open>str.strip\<close>, \<open>str.split\<close>, \<open>str.startswith\<close>, indexing\<close>

text \<open>The code points for which \<open>str.isspace\<close> holds; \<open>strip()\<close> removes them at both ends.\<close>

definition py_isspace :: "nat \<Rightarrow> bool" where
  "py_isspace c =
     ((9 \<le> c \<and> c \<le> 13) \<or> (28 \<le> c \<and> c \<le> 32) \<or> c = 133 \<or> c = 160 \<or> c = 5760
      \<or> (8192 \<le> c \<and> c \<le> 8202) \<or> c = 8232 \<or> c = 8233 \<or> c = 8239 \<or> c = 8287
      \<or> c = 12288)"

definition strip_by :: "(nat \<Rightarrow> bool) \<Rightarrow> pystr \<Rightarrow> pystr" where
  "strip_by p s = rev (dropWhile p (rev (dropWhile p s)))"

definition py_strip :: "pystr \<Rightarrow> pystr" where
  "py_strip s = strip_by py_isspace s"

text \<open>
  \<open>s.split(sep)\<close> with a one-character separator: the pieces between the separators,
  empty pieces kept, so the result is never the empty list.
\<close>

fun py_split :: "nat \<Rightarrow> pystr \<Rightarrow> pystr list" where
  "py_split sep [] = [[]]"
| "py_split sep (c # cs) =
     (if c = sep then [] # py_split sep cs
      else (case py_split sep cs of [] \<Rightarrow> [[c]] | p # ps \<Rightarrow> (c # p) # ps))"

definition startswith :: "pystr \<Rightarrow> pystr \<Rightarrow> bool" where
  "startswith s p = (take (length p) s = p)"

text \<open>\<open>xs[i]\<close> for a non-negative index: \<open>IndexError\<close> out of range.\<close>

definition py_index :: "'a list \<Rightarrow> nat \<Rightarrow> exn + 'a" where
  "py_index xs i = (if i < length xs then Inr (xs ! i) else Inl IndexError)"

subsection \<open>Floats\<close>

text \<open>
  A Python float is an IEEE binary64 value: a finite number (kept as the rational it
  denotes), an infinity or NaN. The sign of zero is not kept; no comparison of the
  programs distinguishes the two zeros.
\<close>

datatype pyfloat = Fin rat | PosInf | NegInf | NaN

definition is_finite :: "pyfloat \<Rightarrow> bool" where
  "is_finite x = (case x of Fin _ \<Rightarrow> True | _ \<Rightarrow> False)"

definition pow2 :: "int \<Rightarrow> rat" where
  "pow2 k = (if 0 \<le> k then 2 ^ nat k else 1 / 2 ^ nat (- k))"

text \<open>\<open>ilog2 a\<close> is the integer part of the binary logarithm of a positive rational.\<close>

definition ilog2 :: "rat \<Rightarrow> int" where
  "ilog2 a =
     (let (p, q) = quotient_of a;
          d = int (floorlog 2 (nat p)) - int (floorlog 2 (nat q))
      in if pow2 d \<le> a then d else d - 1)"

definition round_half_even :: "rat \<Rightarrow> int" where
  "round_half_even x =
     (let n = \<lfloor>x\<rfloor>; r = x - of_int n
      in if r < 1 / 2 then n else if 1 / 2 < r then n + 1 else if even n then n else n + 1)"

text \<open>
  Rounding of an exact value to the nearest binary64 value, ties to even, with gradual
  underflow and overflow to infinity: \<open>e\<close> is the binary exponent (at least that of
  the smallest normal number), \<open>m\<close> the significand of 53 bits after rounding. The
  result overflows when it reaches \<open>2 ^ 1024\<close>, that is when \<open>e\<close> exceeds 1023 or the
  rounding carries the significand to \<open>2 ^ 53\<close> at \<open>e = 1023\<close>.
\<close>

definition b64 :: "rat \<Rightarrow> pyfloat" where
  "b64 q =
     (if q = 0 then Fin 0
      else
        let a = \<bar>q\<bar>;
            e = max (ilog2 a) (- 1022);
            u = pow2 (e - 52);
            m = round_half_even (a / u)
        in if 1023 < e \<or> (e = 1023 \<and> 2 ^ 53 \<le> m) then (if 0 < q then PosInf else NegInf)
           else Fin (if 0 < q then of_int m * u else - (of_int m * u)))"

text \<open>Subtraction, absolute value and the comparison \<open>>\<close> on floats.\<close>

fun fsub :: "pyfloat \<Rightarrow> pyfloat \<Rightarrow> pyfloat" where
  "fsub (Fin a) (Fin b) = b64 (a - b)"
| "fsub NaN _ = NaN"
| "fsub _ NaN = NaN"
| "fsub PosInf PosInf = NaN"
| "fsub NegInf NegInf = NaN"
| "fsub PosInf _ = PosInf"
| "fsub NegInf _ = NegInf"
| "fsub (Fin a) PosInf = NegInf"
| "fsub (Fin a) NegInf = PosInf"

fun fabs :: "pyfloat \<Rightarrow> pyfloat" where
  "fabs (Fin a) = Fin \<bar>a\<bar>"
| "fabs PosInf = PosInf"
| "fabs NegInf = PosInf"
| "fabs NaN = NaN"

fun fgt :: "pyfloat \<Rightarrow> pyfloat \<Rightarrow> bool" where
  "fgt NaN _ = False"
| "fgt _ NaN = False"
| "fgt (Fin a) (Fin b) = (b < a)"
| "fgt PosInf PosInf = False"
| "fgt PosInf _ = True"
| "fgt NegInf _ = False"
| "fgt (Fin a) PosInf = False"
| "fgt (Fin a) NegInf = True"

definition flt :: "pyfloat \<Rightarrow> pyfloat \<Rightarrow> bool" where
  "flt x y = fgt y x"

subsection \<open>\<open>float(s)\<close> on a string\<close>

text \<open>
  \<open>float\<close> first turns every non-ASCII white-space character into a space and every
  non-ASCII decimal digit into the ASCII digit of its value (any other non-ASCII
  character becomes a question mark, which no number contains), checks that each
  underscore stands between two digits and removes the underscores, strips ASCII white
  space at both ends, and reads an optional sign followed by a decimal number with an
  optional exponent, or by \<open>inf\<close>, \<open>infinity\<close> or \<open>nan\<close> in any letter case. The decimal
  value is rounded to binary64. Anything else raises \<open>ValueError\<close>.
  \<open>decimal_zeros\<close> lists the code points of the digit zero of each set of decimal
  digits outside ASCII (Unicode 14, the table of CPython 3.11); the nine code points
  after each are the digits one to nine.
\<close>

definition is_digit :: "nat \<Rightarrow> bool" where
  "is_digit c = (48 \<le> c \<and> c \<le> 57)"

definition c_isspace :: "nat \<Rightarrow> bool" where
  "c_isspace c = ((9 \<le> c \<and> c \<le> 13) \<or> c = 32)"

definition decimal_zeros :: "nat list" where
  "decimal_zeros =
     [1632, 1776, 1984, 2406, 2534, 2662, 2790, 2918, 3046, 3174, 3302, 3430, 3558, 3664,
      3792, 3872, 4160, 4240, 6112, 6160, 6470, 6608, 6784, 6800, 6992, 7088, 7232, 7248,
      42528, 43216, 43264, 43472, 43504, 43600, 44016, 65296, 66720, 68912, 69734, 69872,
      69942, 70096, 70384, 70736, 70864, 71248, 71360, 71472, 71904, 72016, 72784, 73040,
      73120, 92768, 92864, 93008, 120782, 120792, 120802, 120812, 120822, 123200, 123632,
      125264, 130032]"

definition to_decimal :: "nat \<Rightarrow> nat option" where
  "to_decimal c =
     (case filter (\<lambda>z. z \<le> c \<and> c < z + 10) decimal_zeros of
        [] \<Rightarrow> None
      | z # _ \<Rightarrow> Some (c - z))"

definition space_to_ascii :: "nat \<Rightarrow> nat" where
  "space_to_ascii c =
     (if c < 127 then c
      else if py_isspace c then 32
      else (case to_decimal c of Some d \<Rightarrow> 48 + d | None \<Rightarrow> 63))"

fun underscores_ok :: "nat \<Rightarrow> pystr \<Rightarrow> bool" where
  "underscores_ok prev [] = (prev \<noteq> 95)"
| "underscores_ok prev (c # cs) =
     (if c = 95 then is_digit prev \<and> underscores_ok c cs
      else if prev = 95 \<and> \<not> is_digit c then False
      else underscores_ok c cs)"

definition digits_val :: "pystr \<Rightarrow> nat" where
  "digits_val ds = foldl (\<lambda>n c. 10 * n + (c - 48)) 0 ds"

definition pow10 :: "int \<Rightarrow> rat" where
  "pow10 k = (if 0 \<le> k then 10 ^ nat k else 1 / 10 ^ nat (- k))"

definition take_sign :: "pystr \<Rightarrow> bool \<times> pystr" where
  "take_sign s =
     (case s of [] \<Rightarrow> (False, [])
      | c # r \<Rightarrow> if c = 43 then (False, r) else if c = 45 then (True, r) else (False, s))"

text \<open>
  An unsigned decimal number: digits with an optional point, at least one digit in all,
  and an optional exponent (\<open>e\<close> or \<open>E\<close>, optional sign, at least one digit), up to the
  end of the string.
\<close>

definition parse_number :: "pystr \<Rightarrow> rat option" where
  "parse_number s =
     (let ip = takeWhile is_digit s;
          r1 = dropWhile is_digit s;
          (fp, r2) = (case r1 of [] \<Rightarrow> ([], [])
                      | c # t \<Rightarrow> if c = 46 then (takeWhile is_digit t, dropWhile is_digit t)
                                 else ([], r1));
          mant = of_nat (digits_val (ip @ fp))
      in if ip = [] \<and> fp = [] then None
         else
           (case r2 of
              [] \<Rightarrow> Some (mant * pow10 (- int (length fp)))
            | c # t \<Rightarrow>
                if c = 101 \<or> c = 69 then
                  (let (neg, ds) = take_sign t;
                       ex = int (digits_val ds)
                   in if ds \<noteq> [] \<and> list_all is_digit ds
                      then Some (mant * pow10 ((if neg then - ex else ex) - int (length fp)))
                      else None)
                else None))"

definition lower :: "nat \<Rightarrow> nat" where
  "lower c = (if 65 \<le> c \<and> c \<le> 90 then c + 32 else c)"

definition py_float :: "pystr \<Rightarrow> exn + pyfloat" where
  "py_float s =
     (let t = map space_to_ascii s
      in if \<not> underscores_ok 0 t then Inl (ValueError (CouldNotConvertToFloat s))
         else
           (let (neg, v) = take_sign (strip_by c_isspace (filter (\<lambda>c. c \<noteq> 95) t))
            in case parse_number v of
                 Some q \<Rightarrow> Inr (b64 (if neg then - q else q))
               | None \<Rightarrow>
                   (let w = map lower v
                    in if w = str ''inf'' \<or> w = str ''infinity''
                       then Inr (if neg then NegInf else PosInf)
                       else if w = str ''nan'' then Inr NaN
                       else Inl (ValueError (CouldNotConvertToFloat s)))))"

section \<open>The ingestion service (\<open>logger_service.py\<close>)\<close>

subsection \<open>Records, sinks and console output\<close>

text \<open>
  A time stamp is a point on the time line, counted in nanoseconds. The service takes it
  from \<open>datetime.now()\<close> when a non-empty line has arrived.
\<close>

record structured_record =
  timestamp :: int
  temperature :: pyfloat
  voltage :: pyfloat
  status_code :: pystr

record raw_record =
  arrival :: int
  raw_line :: pystr

text \<open>A line of the parse-error log: the time stamp and the exception that was caught.\<close>

record parse_error_record =
  pe_timestamp :: int
  pe_error :: exn

text \<open>A row of \<open>structured_metrics.csv\<close>: the header row or a data row.\<close>

datatype csv_row = Header | Data structured_record

datatype msg =
    CsvCreated
  | CsvSetupError
  | ServiceStarted
  | RawLogError
  | Logged structured_record
  | FailedToParse pystr
  | ErrorLogError
  | PortError
  | StoppedByUser
  | PortClosed

text \<open>
  Where the script stands: \<open>CONNECTING\<close> before the port is opened, \<open>RUNNING\<close> inside
  the \<open>while True\<close> loop, \<open>FAILED\<close> after the handler of \<open>SerialException\<close>, \<open>STOPPED\<close>
  after the handler of \<open>KeyboardInterrupt\<close>, and \<open>CRASHED e\<close> when the exception \<open>e\<close>, which
  no handler of the script catches, has left the script.
\<close>

datatype phase = CONNECTING | RUNNING | STOPPED | FAILED | CRASHED exn

record state =
  raw_log :: "raw_record list"
  csv_file :: "csv_row list"
  error_log :: "parse_error_record list"
  console :: "msg list"
  port_open :: bool
  phase :: phase

subsection \<open>What the environment does in one iteration\<close>

text \<open>
  \<open>ser.readline()\<close> returns the bytes of a line (none or a part of one on the idle
  timeout), raises \<open>SerialException\<close> when the link is lost, or is interrupted by the
  operator. \<open>now\<close> is the reading of the clock. \<open>raw_ok\<close> and \<open>err_ok\<close> say whether the
  append to the raw log and to the error log succeeds in this iteration; when it does
  not, an exception is raised, which the \<open>except Exception\<close> around the append catches
  whatever it is, and the file is left as it was. \<open>csv_append\<close> is the exception that the
  append to the CSV file (lines 67 to 69) raises in this iteration, \<open>None\<close> when it
  succeeds: \<open>OSError\<close> when the file cannot be opened or written, \<open>UnicodeEncodeError\<close>
  when the status token cannot be written in the encoding of the file. A failed append
  leaves the file as it was. Printing to the console is taken to succeed.
\<close>

datatype read = Line "byte list" | LinkLost | Interrupt

record tick =
  rd :: read
  now :: int
  raw_ok :: bool
  csv_append :: "exn option"
  err_ok :: bool

subsection \<open>Section 3 of the script: preparing the CSV file\<close>

text \<open>
  \<open>open(CSV_FILE, 'w')\<close> empties the file and the header row is written. When the
  \<open>open\<close> fails the error is printed and the file is left as it was.
\<close>

definition prepare_csv :: "bool \<Rightarrow> state \<Rightarrow> state" where
  "prepare_csv ok s =
     (if ok then s\<lparr>csv_file := [Header], console := console s @ [CsvCreated]\<rparr>
      else s\<lparr>console := console s @ [CsvSetupError]\<rparr>)"

subsection \<open>Section 4: the parse branch (lines 55 to 75)\<close>

definition parse_line :: "pystr \<Rightarrow> exn + (pyfloat \<times> pyfloat \<times> pystr)" where
  "parse_line line =
     (let parts = py_split 44 line
      in if length parts = 3 \<and> startswith (parts ! 0) (str ''T:'')
            \<and> startswith (parts ! 1) (str ''V:'') \<and> startswith (parts ! 2) (str ''S:'')
         then
           (case py_index (py_split 58 (parts ! 0)) 1 of Inl e \<Rightarrow> Inl e | Inr temp_str \<Rightarrow>
           (case py_index (py_split 58 (parts ! 1)) 1 of Inl e \<Rightarrow> Inl e | Inr volt_str \<Rightarrow>
           (case py_index (py_split 58 (parts ! 2)) 1 of Inl e \<Rightarrow> Inl e | Inr status \<Rightarrow>
           (case py_float temp_str of Inl e \<Rightarrow> Inl e | Inr temp_float \<Rightarrow>
           (case py_float volt_str of Inl e \<Rightarrow> Inl e | Inr volt_float \<Rightarrow>
              Inr (temp_float, volt_float, status))))))
         else Inl (ValueError (MalformedDataStructure line)))"

text \<open>
  Two notions for stating what the branch accepts. \<open>three_fields\<close> is the check of line
  57. \<open>field_value f\<close> is the text of the field \<open>f\<close> between its two-character prefix and
  the next colon, or the end of the field when no colon follows.
\<close>

definition three_fields :: "pystr \<Rightarrow> bool" where
  "three_fields line =
     (length (py_split 44 line) = 3 \<and> startswith (py_split 44 line ! 0) (str ''T:'')
      \<and> startswith (py_split 44 line ! 1) (str ''V:'')
      \<and> startswith (py_split 44 line ! 2) (str ''S:''))"

definition field_value :: "pystr \<Rightarrow> pystr" where
  "field_value f = takeWhile (\<lambda>c. c \<noteq> 58) (drop 2 f)"

text \<open>
  The parser as the specification words it: exactly three comma-separated fields with the
  prefixes \<open>T:\<close>, \<open>V:\<close>, \<open>S:\<close>; the entire remainder of fields 1 and 2 after the prefix
  must be a number; the entire remainder of field 3 is the status token. \<open>None\<close> is a
  parse failure.
\<close>

definition spec_parse_line :: "pystr \<Rightarrow> (pyfloat \<times> pyfloat \<times> pystr) option" where
  "spec_parse_line line =
     (let parts = py_split 44 line
      in if three_fields line then
           (case py_float (drop 2 (parts ! 0)) of Inl e \<Rightarrow> None | Inr temp \<Rightarrow>
           (case py_float (drop 2 (parts ! 1)) of Inl e \<Rightarrow> None | Inr volt \<Rightarrow>
              Some (temp, volt, drop 2 (parts ! 2))))
         else None)"

subsection \<open>Section 4: one iteration of the loop (lines 34 to 90)\<close>

text \<open>
  The appends to the three sinks. The raw log and the error log are written inside
  \<open>try ... except Exception\<close>: a failure is printed. The CSV file is written inside the
  parse \<open>try\<close>, whose handler catches \<open>ValueError\<close> (with its subclasses) and
  \<open>IndexError\<close> only.
\<close>

definition log_raw :: "tick \<Rightarrow> pystr \<Rightarrow> state \<Rightarrow> state" where
  "log_raw t line s =
     (if raw_ok t then s\<lparr>raw_log := raw_log s @ [\<lparr>arrival = now t, raw_line = line\<rparr>]\<rparr>
      else s\<lparr>console := console s @ [RawLogError]\<rparr>)"

definition log_error :: "tick \<Rightarrow> pystr \<Rightarrow> exn \<Rightarrow> state \<Rightarrow> state" where
  "log_error t line e s =
     (let s1 = s\<lparr>console := console s @ [FailedToParse line]\<rparr>
      in if err_ok t
         then s1\<lparr>error_log := error_log s1 @ [\<lparr>pe_timestamp = now t, pe_error = e\<rparr>]\<rparr>
         else s1\<lparr>console := console s1 @ [ErrorLogError]\<rparr>)"

definition caught_by_parse_handler :: "exn \<Rightarrow> bool" where
  "caught_by_parse_handler e =
     (case e of
        ValueError _ \<Rightarrow> True
      | UnicodeDecodeError \<Rightarrow> True
      | UnicodeEncodeError \<Rightarrow> True
      | IndexError \<Rightarrow> True
      | _ \<Rightarrow> False)"

text \<open>
  The body for a non-empty line. \<open>attempt\<close> is the \<open>try\<close> block of lines 53 to 75: the
  row that it has appended to the CSV file, or the exception that ends it. The result
  is the new state and the exception that leaves the body, if any.
\<close>

definition process_line :: "tick \<Rightarrow> pystr \<Rightarrow> state \<Rightarrow> state \<times> exn option" where
  "process_line t line s =
     (let s1 = log_raw t line s;
          attempt =
            (case parse_line line of
               Inl e \<Rightarrow> Inl e
             | Inr (temp_float, volt_float, status) \<Rightarrow>
                 (case csv_append t of
                    Some e \<Rightarrow> Inl e
                  | None \<Rightarrow>
                      Inr \<lparr>timestamp = now t, temperature = temp_float, voltage = volt_float,
                           status_code = status\<rparr>))
      in case attempt of
           Inr r \<Rightarrow>
             (s1\<lparr>csv_file := csv_file s1 @ [Data r], console := console s1 @ [Logged r]\<rparr>, None)
         | Inl e \<Rightarrow>
             if caught_by_parse_handler e then (log_error t line e s1, None)
             else (s1, Some e))"

definition loop_body :: "tick \<Rightarrow> state \<Rightarrow> state \<times> exn option" where
  "loop_body t s =
     (case rd t of
        LinkLost \<Rightarrow> (s, Some SerialException)
      | Interrupt \<Rightarrow> (s, Some KeyboardInterrupt)
      | Line bs \<Rightarrow>
          (case decode_utf8 bs of
             Inl e \<Rightarrow> (s, Some e)
           | Inr txt \<Rightarrow>
               (let line = py_strip txt
                in if line = [] then (s, None) else process_line t line s)))"

subsection \<open>Section 4: the outer handlers and the loop\<close>

text \<open>
  An exception that leaves the loop: \<open>SerialException\<close> and \<open>KeyboardInterrupt\<close> have a
  handler, any other exception has none. The \<open>finally\<close> clause closes the port when it
  is open.
\<close>

definition leave_loop :: "exn \<Rightarrow> state \<Rightarrow> state" where
  "leave_loop e s =
     (let s1 = (case e of
                  SerialException \<Rightarrow> s\<lparr>console := console s @ [PortError], phase := FAILED\<rparr>
                | KeyboardInterrupt \<Rightarrow>
                    s\<lparr>console := console s @ [StoppedByUser], phase := STOPPED\<rparr>
                | _ \<Rightarrow> s\<lparr>phase := CRASHED e\<rparr>)
      in if port_open s1 then s1\<lparr>port_open := False, console := console s1 @ [PortClosed]\<rparr>
         else s1)"

text \<open>Opening the port: \<open>serial.Serial(...)\<close> succeeds or raises \<open>SerialException\<close>.\<close>

definition connect :: "bool \<Rightarrow> state \<Rightarrow> state" where
  "connect ok s =
     (let s1 = s\<lparr>console := console s @ [ServiceStarted]\<rparr>
      in if ok then s1\<lparr>port_open := True, phase := RUNNING\<rparr>
         else leave_loop SerialException s1)"

text \<open>
  One iteration of \<open>while True\<close>; once the script has left the loop nothing more
  happens. \<open>run\<close> is the state after the iterations of a finite list of ticks: the loop
  itself has no exit but an exception.
\<close>

definition step :: "state \<Rightarrow> tick \<Rightarrow> state" where
  "step s t =
     (if phase s = RUNNING then
        (case loop_body t s of (s', None) \<Rightarrow> s' | (s', Some e) \<Rightarrow> leave_loop e s')
      else s)"

definition run :: "state \<Rightarrow> tick list \<Rightarrow> state" where
  "run s ts = foldl step s ts"

text \<open>
  The whole script, started on the files \<open>s\<close> (its \<open>phase\<close> is \<open>CONNECTING\<close> and its
  port closed): \<open>csv_setup_ok\<close> and \<open>port_ok\<close> say whether the CSV file and the port can
  be opened.
\<close>

definition logger_service :: "bool \<Rightarrow> bool \<Rightarrow> tick list \<Rightarrow> state \<Rightarrow> state" where
  "logger_service csv_setup_ok port_ok ts s = run (connect port_ok (prepare_csv csv_setup_ok s)) ts"

subsection \<open>States and arrivals of the examples\<close>

text \<open>
  The service running on empty files, with the header row in the CSV file; a line as
  the device sends it; and the arrival of the bytes \<open>bs\<close> at the time \<open>time\<close> in an
  iteration in which every sink can be written.
\<close>

abbreviation listening :: state where
  "listening \<equiv>
     \<lparr>raw_log = [], csv_file = [Header], error_log = [], console = [], port_open = True,
      phase = RUNNING\<rparr>"

abbreviation well_formed_line :: "byte list" where
  "well_formed_line \<equiv> ascii_bytes ''T:50.0,V:5.0,S:OK'' @ [10]"

abbreviation received :: "byte list \<Rightarrow> int \<Rightarrow> tick" where
  "received bs time \<equiv>
     \<lparr>rd = Line bs, now = time, raw_ok = True, csv_append = None, err_ok = True\<rparr>"

section \<open>The anomaly detection engine (\<open>detector.py\<close>)\<close>

subsection \<open>Configuration\<close>

definition TEMP_THRESHOLD :: pyfloat where
  "TEMP_THRESHOLD = Fin 80"

definition VOLTAGE_THRESHOLD_HIGH :: pyfloat where
  "VOLTAGE_THRESHOLD_HIGH = Fin (11 / 2)"

definition VOLTAGE_THRESHOLD_LOW :: pyfloat where
  "VOLTAGE_THRESHOLD_LOW = Fin (9 / 2)"

definition TEMP_RATE_OF_CHANGE_THRESHOLD :: pyfloat where
  "TEMP_RATE_OF_CHANGE_THRESHOLD = Fin 15"

definition HEARTBEAT_TIMEOUT_SECONDS :: int where
  "HEARTBEAT_TIMEOUT_SECONDS = 4"

text \<open>\<open>timedelta(seconds=n)\<close> in the unit of the time stamps, nanoseconds.\<close>

definition timedelta_seconds :: "int \<Rightarrow> int" where
  "timedelta_seconds n = n * 1000000000"

subsection \<open>Anomalies\<close>

datatype kind =
    THRESHOLD_BREACH_TEMP
  | THRESHOLD_BREACH_VOLTAGE
  | RAPID_CHANGE_TEMP
  | HEARTBEAT_LOSS

datatype severity = WARNING | CRITICAL

text \<open>
  The description is one of four sentences of the source; it is kept with the values the
  sentence prints: the temperature and the threshold, the voltage, the change of
  temperature (each printed with two decimals), and the time gap (printed in seconds
  with one decimal).
\<close>

datatype description =
    TemperatureExceeded pyfloat pyfloat
  | VoltageOutsideRange pyfloat
  | TemperatureChangedBy pyfloat
  | NoDataReceivedFor int

record anomaly =
  a_timestamp :: int
  a_type :: kind
  a_severity :: severity
  a_description :: description

subsection \<open>The loaded frame (lines 22 to 25)\<close>

text \<open>
  The detectors work on the frame \<open>df\<close> that line 25 leaves: the data rows of the CSV
  file, sorted by the column \<open>timestamp\<close>. A row is modelled with the instant of its
  time stamp, in nanoseconds.

  In the file a time stamp is the text that the logger wrote with
  \<open>datetime.now().isoformat()\<close> (line 41 of \<open>logger_service.py\<close>):
  \<open>YYYY-MM-DDTHH:MM:SS.ffffff\<close>, and \<open>YYYY-MM-DDTHH:MM:SS\<close> without the fraction when
  the microsecond of the instant is 0. \<open>pd.read_csv(..., parse_dates=['timestamp'])\<close>
  takes the format of the first time stamp for the whole column (pandas 2 and later):
  when every time stamp of the file has this format the column is parsed and its dtype
  is \<open>datetime64\<close>; when one has the other format the column is left as the text it is,
  dtype \<open>object\<close>. Sorting changes neither the set of rows nor the dtype.
\<close>

definition microsecond :: "int \<Rightarrow> int" where
  "microsecond ts = (ts div 1000) mod 1000000"

definition isoformat_has_fraction :: "int \<Rightarrow> bool" where
  "isoformat_has_fraction ts = (microsecond ts \<noteq> 0)"

datatype dtype = Datetime64 | Object

definition timestamp_dtype :: "structured_record list \<Rightarrow> dtype" where
  "timestamp_dtype df =
     (case df of
        [] \<Rightarrow> Datetime64
      | r # rs \<Rightarrow>
          if list_all (\<lambda>x. isoformat_has_fraction (timestamp x)
                             = isoformat_has_fraction (timestamp r)) rs
          then Datetime64 else Object)"

subsection \<open>The four detectors (lines 31 to 83)\<close>

text \<open>
  Each detector selects rows of the sorted frame with a mask and appends one anomaly for
  each. The first three read the time stamp of a row only to copy it. The fourth
  computes with the time stamps: \<open>heartbeat_anomalies\<close> is what lines 71 to 83 append when
  the column is \<open>datetime64\<close>, and \<open>heartbeat_block\<close> is the block for either dtype.
\<close>

definition temp_anomalies :: "structured_record list \<Rightarrow> anomaly list" where
  "temp_anomalies df =
     map (\<lambda>row. \<lparr>a_timestamp = timestamp row, a_type = THRESHOLD_BREACH_TEMP,
                  a_severity = CRITICAL,
                  a_description = TemperatureExceeded (temperature row) TEMP_THRESHOLD\<rparr>)
       (filter (\<lambda>row. fgt (temperature row) TEMP_THRESHOLD) df)"

definition voltage_anomalies :: "structured_record list \<Rightarrow> anomaly list" where
  "voltage_anomalies df =
     map (\<lambda>row. \<lparr>a_timestamp = timestamp row, a_type = THRESHOLD_BREACH_VOLTAGE,
                  a_severity = CRITICAL,
                  a_description = VoltageOutsideRange (voltage row)\<rparr>)
       (filter (\<lambda>row. fgt (voltage row) VOLTAGE_THRESHOLD_HIGH
                       \<or> flt (voltage row) VOLTAGE_THRESHOLD_LOW) df)"

text \<open>
  \<open>Series.diff()\<close>: the difference of each element and the one before it; the first
  element has none before it and gets the missing value, NaN for floats and NaT (here
  \<open>None\<close>) for times.
\<close>

fun diff_float :: "pyfloat list \<Rightarrow> pyfloat list" where
  "diff_float [] = []"
| "diff_float (x # xs) = NaN # map2 fsub xs (x # xs)"

fun diff_time :: "int list \<Rightarrow> int option list" where
  "diff_time [] = []"
| "diff_time (x # xs) = None # map2 (\<lambda>a b. Some (a - b)) xs (x # xs)"

text \<open>\<open>time_diff > timedelta\<close>: false for NaT.\<close>

definition timediff_gt :: "int option \<Rightarrow> int \<Rightarrow> bool" where
  "timediff_gt d limit = (case d of None \<Rightarrow> False | Some g \<Rightarrow> limit < g)"

definition roc_anomalies :: "structured_record list \<Rightarrow> anomaly list" where
  "roc_anomalies df =
     map (\<lambda>(row, temp_change).
            \<lparr>a_timestamp = timestamp row, a_type = RAPID_CHANGE_TEMP, a_severity = WARNING,
             a_description = TemperatureChangedBy temp_change\<rparr>)
       (filter (\<lambda>(row, temp_change). fgt (fabs temp_change) TEMP_RATE_OF_CHANGE_THRESHOLD)
          (zip df (diff_float (map temperature df))))"

definition heartbeat_anomalies :: "structured_record list \<Rightarrow> anomaly list" where
  "heartbeat_anomalies df =
     map (\<lambda>(row, time_diff).
            \<lparr>a_timestamp = timestamp row, a_type = HEARTBEAT_LOSS, a_severity = CRITICAL,
             a_description = NoDataReceivedFor (case time_diff of None \<Rightarrow> 0 | Some g \<Rightarrow> g)\<rparr>)
       (filter (\<lambda>(row, time_diff).
                  timediff_gt time_diff (timedelta_seconds HEARTBEAT_TIMEOUT_SECONDS))
          (zip df (diff_time (map timestamp df))))"

text \<open>
  On a column of dtype \<open>object\<close> (it has at least two rows then) \<open>df['timestamp'].diff()\<close>
  on line 71 subtracts one text from another, which raises \<open>TypeError\<close>.
\<close>

definition heartbeat_block :: "structured_record list \<Rightarrow> exn + anomaly list" where
  "heartbeat_block df =
     (if timestamp_dtype df = Object then Inl TypeError else Inr (heartbeat_anomalies df))"

text \<open>
  The list that the four detectors have appended when line 71 raises nothing, that is
  when the column of time stamps is \<open>datetime64\<close>.
\<close>

definition anomalies_found :: "structured_record list \<Rightarrow> anomaly list" where
  "anomalies_found df =
     temp_anomalies df @ voltage_anomalies df @ roc_anomalies df @ heartbeat_anomalies df"

subsection \<open>The report (lines 88 to 120)\<close>

text \<open>
  \<open>anomalies_found.sort(key=...)\<close> is Python's list sort, which is stable: elements of
  equal key keep their order. A non-empty list is sorted, printed and written to the
  JSON file in that order; for an empty list one line is printed and no file is written.
\<close>

definition report :: "structured_record list \<Rightarrow> anomaly list" where
  "report df =
     (let found = anomalies_found df
      in if found \<noteq> [] then sort_key a_timestamp found else found)"

text \<open>
  Lines 29 to 90 on the sorted frame: the anomalies in the order of the report, or the
  exception that ends the \<open>try\<close> block before anything is reported; the handler of
  lines 124 and 125 then prints the exception and the run ends without a report.
\<close>

definition detection :: "structured_record list \<Rightarrow> exn + anomaly list" where
  "detection df =
     (case heartbeat_block df of
        Inl e \<Rightarrow> Inl e
      | Inr heartbeat \<Rightarrow>
          (let found = temp_anomalies df @ voltage_anomalies df @ roc_anomalies df @ heartbeat
           in Inr (if found \<noteq> [] then sort_key a_timestamp found else found)))"

text \<open>
  The output of a run that reaches section 4: the anomalies printed on the console, and
  the content of \<open>anomaly_report.json\<close> when the file is written (\<open>json_ok\<close> says whether
  it can be written).
\<close>

record detector_output =
  printed :: "anomaly list"
  json_report :: "anomaly list option"

definition generate_reports :: "bool \<Rightarrow> structured_record list \<Rightarrow> detector_output" where
  "generate_reports json_ok df =
     (let found = report df
      in \<lparr>printed = found,
          json_report = (if found \<noteq> [] \<and> json_ok then Some found else None)\<rparr>)"

section \<open>Facts about the runtime operations\<close>

lemma decode_utf8_error: "decode_utf8 bs = Inl e \<Longrightarrow> e = UnicodeDecodeError"
  by (simp add: decode_utf8_def split: option.splits)

lemma py_split_not_Nil: "py_split sep s \<noteq> []"
  by (induction s) (auto split: list.splits)

lemma py_split_unfold:
  "py_split sep s =
     takeWhile (\<lambda>c. c \<noteq> sep) s #
       (case dropWhile (\<lambda>c. c \<noteq> sep) s of [] \<Rightarrow> [] | _ # r \<Rightarrow> py_split sep r)"
  by (induction s) (auto split: list.splits simp: py_split_not_Nil)

text \<open>
  The element at index 1 of \<open>f.split(':')\<close>, for a field that starts with a letter and a
  colon, is the text between this colon and the next one.
\<close>

lemma split_after_prefix:
  assumes "startswith f [a, sep]" "a \<noteq> sep"
  shows "py_index (py_split sep f) 1 = Inr (takeWhile (\<lambda>c. c \<noteq> sep) (drop 2 f))"
proof -
  from assms(1) have t: "take 2 f = [a, sep]"
    by (simp add: startswith_def numeral_2_eq_2)
  obtain r where f: "f = a # sep # r"
    using t append_take_drop_id[of 2 f] by (metis append_Cons append_Nil)
  have 1: "py_split sep (a # sep # r) = [a] # py_split sep r"
    using assms(2) by simp
  have 2: "\<exists>rest. py_split sep r = takeWhile (\<lambda>c. c \<noteq> sep) r # rest"
    by (subst py_split_unfold) simp
  have 3: "drop 2 (a # sep # r) = r"
    by simp
  from 2 show ?thesis
    unfolding f 1 3 by (auto simp: py_index_def)
qed

lemma py_float_error: "py_float s = Inl e \<Longrightarrow> e = ValueError (CouldNotConvertToFloat s)"
  unfolding py_float_def Let_def
  by (simp split: if_splits prod.splits option.splits)

text \<open>\<open>Series.diff()\<close> by position.\<close>

lemma length_diff_time: "length (diff_time xs) = length xs"
  by (cases xs) simp_all

lemma nth_diff_time:
  "i < length xs \<Longrightarrow> diff_time xs ! i = (if i = 0 then None else Some (xs ! i - xs ! (i - 1)))"
  by (cases xs; cases i) simp_all

lemma length_diff_float: "length (diff_float xs) = length xs"
  by (cases xs) simp_all

lemma nth_diff_float:
  "i < length xs \<Longrightarrow> diff_float xs ! i = (if i = 0 then NaN else fsub (xs ! i) (xs ! (i - 1)))"
  by (cases xs; cases i) simp_all

lemma zip_as_map_upt:
  "length ys = length xs \<Longrightarrow> zip xs ys = map (\<lambda>i. (xs ! i, ys ! i)) [0..<length xs]"
  by (rule nth_equalityI) simp_all

lemma filter_upt_drop_zero:
  "\<not> P 0 \<Longrightarrow> filter P [0..<n] = filter P [1..<n]"
  by (cases n) (simp_all add: upt_conv_Cons del: upt_Suc)

lemma map_filter_upt_cong:
  "(\<And>i. i < n \<Longrightarrow> 0 < i \<Longrightarrow> P i = Q i) \<Longrightarrow> (\<And>i. i < n \<Longrightarrow> 0 < i \<Longrightarrow> P i \<Longrightarrow> f i = g i)
   \<Longrightarrow> map f (filter P [1..<n]) = map g (filter Q [1..<n])"
  by (induction n) auto


section \<open>Facts about the ingestion loop\<close>

subsection \<open>The parse branch\<close>

lemma str_prefixes:
  "str ''T:'' = [84, 58]" "str ''V:'' = [86, 58]" "str ''S:'' = [83, 58]"
  by (simp_all add: str_def)

lemma index_1_field_value:
  assumes "startswith f [a, 58]" "a \<noteq> 58"
  shows "py_index (py_split 58 f) 1 = Inr (field_value f)"
  unfolding field_value_def using assms by (rule split_after_prefix)

lemma parse_line_eq:
  "parse_line line =
     (if three_fields line then
        (case py_float (field_value (py_split 44 line ! 0)) of Inl e \<Rightarrow> Inl e | Inr temp \<Rightarrow>
        (case py_float (field_value (py_split 44 line ! 1)) of Inl e \<Rightarrow> Inl e | Inr volt \<Rightarrow>
           Inr (temp, volt, field_value (py_split 44 line ! 2))))
      else Inl (ValueError (MalformedDataStructure line)))"
proof (cases "three_fields line")
  case False
  then show ?thesis
    unfolding parse_line_def Let_def three_fields_def by (simp only: if_False)
next
  case True
  let ?p = "py_split 44 line"
  from True have s: "startswith (?p ! 0) [84, 58]" "startswith (?p ! 1) [86, 58]"
    "startswith (?p ! 2) [83, 58]"
    by (simp_all add: three_fields_def str_prefixes)
  have i0: "py_index (py_split 58 (?p ! 0)) 1 = Inr (field_value (?p ! 0))"
    using s(1) by (rule index_1_field_value) simp
  have i1: "py_index (py_split 58 (?p ! 1)) 1 = Inr (field_value (?p ! 1))"
    using s(2) by (rule index_1_field_value) simp
  have i2: "py_index (py_split 58 (?p ! 2)) 1 = Inr (field_value (?p ! 2))"
    using s(3) by (rule index_1_field_value) simp
  from True have c: "(length ?p = 3 \<and> startswith (?p ! 0) (str ''T:'')
      \<and> startswith (?p ! 1) (str ''V:'') \<and> startswith (?p ! 2) (str ''S:'')) = True"
    by (simp add: three_fields_def)
  show ?thesis
    unfolding parse_line_def Let_def c i0 i1 i2 using True by (simp cong: sum.case_cong)
qed

lemma parse_line_caught: "parse_line line = Inl e \<Longrightarrow> caught_by_parse_handler e"
  by (simp add: parse_line_eq caught_by_parse_handler_def
           split: if_splits sum.splits) (auto dest: py_float_error)

lemma parse_line_malformed:
  "\<not> three_fields line \<Longrightarrow> parse_line line = Inl (ValueError (MalformedDataStructure line))"
  by (simp add: parse_line_eq)

lemma parse_line_of_fields:
  assumes "py_split 44 line = [f0, f1, f2]"
    and "startswith f0 (str ''T:'')" and "startswith f1 (str ''V:'')"
    and "startswith f2 (str ''S:'')"
    and "py_float (field_value f0) = Inr x" and "py_float (field_value f1) = Inr y"
  shows "parse_line line = Inr (x, y, field_value f2)"
  by (simp add: parse_line_eq three_fields_def assms)

subsection \<open>The sinks and the loop\<close>

lemma log_raw_fields:
  "csv_file (log_raw t line s) = csv_file s"
  "error_log (log_raw t line s) = error_log s"
  "phase (log_raw t line s) = phase s"
  "port_open (log_raw t line s) = port_open s"
  "raw_log (log_raw t line s) =
     (if raw_ok t then raw_log s @ [\<lparr>arrival = now t, raw_line = line\<rparr>] else raw_log s)"
  by (simp_all add: log_raw_def)

lemma log_error_fields:
  "csv_file (log_error t line e s) = csv_file s"
  "raw_log (log_error t line e s) = raw_log s"
  "phase (log_error t line e s) = phase s"
  "port_open (log_error t line e s) = port_open s"
  "error_log (log_error t line e s) =
     (if err_ok t then error_log s @ [\<lparr>pe_timestamp = now t, pe_error = e\<rparr>] else error_log s)"
  by (simp_all add: log_error_def Let_def)

lemma leave_loop_fields:
  "csv_file (leave_loop e s) = csv_file s"
  "raw_log (leave_loop e s) = raw_log s"
  "error_log (leave_loop e s) = error_log s"
  "\<not> port_open (leave_loop e s)"
  "phase (leave_loop e s) =
     (case e of SerialException \<Rightarrow> FAILED | KeyboardInterrupt \<Rightarrow> STOPPED | _ \<Rightarrow> CRASHED e)"
  by (simp_all add: leave_loop_def Let_def split: exn.splits)

lemma process_line_parse_error:
  assumes "parse_line line = Inl e"
  shows "process_line t line s = (log_error t line e (log_raw t line s), None)"
  using parse_line_caught[OF assms] by (simp add: process_line_def Let_def assms)

lemma process_line_parsed:
  assumes "parse_line line = Inr (x, y, st)"
  shows "process_line t line s =
     (case csv_append t of
        None \<Rightarrow>
          ((log_raw t line s)
             \<lparr>csv_file := csv_file s @ [Data \<lparr>timestamp = now t, temperature = x, voltage = y,
                                              status_code = st\<rparr>],
               console := console (log_raw t line s)
                          @ [Logged \<lparr>timestamp = now t, temperature = x, voltage = y,
                                      status_code = st\<rparr>]\<rparr>, None)
      | Some e \<Rightarrow>
          if caught_by_parse_handler e then (log_error t line e (log_raw t line s), None)
          else (log_raw t line s, Some e))"
  by (simp add: process_line_def Let_def assms log_raw_fields split: option.splits)

lemma process_line_csv_file:
  "csv_file (fst (process_line t line s)) =
     (case parse_line line of
        Inl e \<Rightarrow> csv_file s
      | Inr (x, y, st) \<Rightarrow>
          if csv_append t = None
          then csv_file s @ [Data \<lparr>timestamp = now t, temperature = x, voltage = y,
                                   status_code = st\<rparr>]
          else csv_file s)"
proof (cases "parse_line line")
  case (Inl e)
  then show ?thesis
    by (simp add: process_line_parse_error log_error_fields log_raw_fields)
next
  case (Inr r)
  then obtain x y st where "parse_line line = Inr (x, y, st)"
    by (cases r) auto
  then show ?thesis
    by (simp add: process_line_parsed log_raw_fields log_error_fields split: option.splits)
qed

lemma process_line_phase: "phase (fst (process_line t line s)) = phase s"
proof (cases "parse_line line")
  case (Inl e)
  then show ?thesis
    by (simp add: process_line_parse_error log_error_fields log_raw_fields)
next
  case (Inr r)
  then obtain x y st where "parse_line line = Inr (x, y, st)"
    by (cases r) auto
  then show ?thesis
    by (simp add: process_line_parsed log_raw_fields log_error_fields split: option.splits)
qed

lemma loop_body_line:
  assumes "rd t = Line bs" "decode_utf8 bs = Inr txt" "py_strip txt \<noteq> []"
  shows "loop_body t s = process_line t (py_strip txt) s"
  by (simp add: loop_body_def assms Let_def)

lemma loop_body_undecodable:
  assumes "rd t = Line bs" "decode_utf8 bs = Inl e"
  shows "loop_body t s = (s, Some UnicodeDecodeError)"
  using decode_utf8_error[OF assms(2)] by (simp add: loop_body_def assms)

lemma loop_body_csv_file:
  "\<exists>rows. csv_file (fst (loop_body t s)) = csv_file s @ rows"
  by (simp add: loop_body_def Let_def process_line_csv_file
           split: read.splits sum.splits prod.splits)

lemma step_csv_file:
  "csv_file (step s t) =
     (if phase s = RUNNING then csv_file (fst (loop_body t s)) else csv_file s)"
  by (simp add: step_def leave_loop_fields split: prod.splits option.splits)

lemma run_Cons: "run s (t # ts) = run (step s t) ts"
  by (simp add: run_def)

lemma run_Nil: "run s [] = s"
  by (simp add: run_def)

lemma run_left_loop: "phase s \<noteq> RUNNING \<Longrightarrow> run s ts = s"
  by (induction ts) (simp_all add: run_def step_def)

lemma run_csv_file: "\<exists>rows. csv_file (run s ts) = csv_file s @ rows"
proof (induction ts arbitrary: s)
  case Nil
  show ?case by (simp add: run_Nil)
next
  case (Cons t ts)
  have "\<exists>r1. csv_file (step s t) = csv_file s @ r1"
    using loop_body_csv_file[of t s] by (cases "phase s = RUNNING") (simp_all add: step_csv_file)
  then obtain r1 where 1: "csv_file (step s t) = csv_file s @ r1"
    by blast
  obtain r2 where 2: "csv_file (run (step s t) ts) = csv_file (step s t) @ r2"
    using Cons.IH by blast
  show ?case
    by (simp add: run_Cons 1 2)
qed

subsection \<open>Evaluation on example lines\<close>

lemma utf8_ascii: "list_all (\<lambda>b. b < 128) bs \<Longrightarrow> utf8 bs = Some bs"
  by (induction bs) simp_all

lemma decode_utf8_ascii:
  "list_all (\<lambda>b. unat b < 128) bs \<Longrightarrow> decode_utf8 bs = Inr (map unat bs)"
  by (simp add: decode_utf8_def utf8_ascii list_all_iff)

lemma py_float_plain:
  assumes "map space_to_ascii s = s" and "underscores_ok 0 s"
    and "filter (\<lambda>c. c \<noteq> 95) s = s" and "strip_by c_isspace s = s"
    and "take_sign s = (False, s)"
  shows "py_float s =
     (case parse_number s of
        Some q \<Rightarrow> Inr (b64 q)
      | None \<Rightarrow>
          if map lower s = str ''inf'' \<or> map lower s = str ''infinity'' then Inr PosInf
          else if map lower s = str ''nan'' then Inr NaN
          else Inl (ValueError (CouldNotConvertToFloat s)))"
  using assms by (simp add: py_float_def Let_def split: option.splits)

lemmas plain_eval =
  str_def space_to_ascii_def py_isspace_def is_digit_def strip_by_def c_isspace_def
  take_sign_def

lemmas number_eval = parse_number_def str_def is_digit_def digits_val_def pow10_def Let_def

lemmas b64_eval = b64_def ilog2_def pow2_def round_half_even_def Let_def compute_floorlog

lemma b64_50: "b64 50 = Fin 50"
  by (simp add: b64_eval)

lemma b64_5: "b64 5 = Fin 5"
  by (simp add: b64_eval)

lemma py_float_50: "py_float (str ''50.0'') = Inr (Fin 50)"
proof -
  have s: "str ''50.0'' = [53, 48, 46, 48]"
    by (simp add: str_def)
  have n: "parse_number [53, 48, 46, 48] = Some 50"
    by (simp add: number_eval)
  show ?thesis
    unfolding s by (subst py_float_plain) (simp_all add: plain_eval n b64_50)
qed

lemma py_float_5: "py_float (str ''5.0'') = Inr (Fin 5)"
proof -
  have s: "str ''5.0'' = [53, 46, 48]"
    by (simp add: str_def)
  have n: "parse_number [53, 46, 48] = Some 5"
    by (simp add: number_eval)
  show ?thesis
    unfolding s by (subst py_float_plain) (simp_all add: plain_eval n b64_5)
qed

lemma py_float_nan: "py_float (str ''nan'') = Inr NaN"
proof -
  have s: "str ''nan'' = [110, 97, 110]"
    by (simp add: str_def)
  have n: "parse_number [110, 97, 110] = None"
    by (simp add: number_eval)
  show ?thesis
    unfolding s by (subst py_float_plain) (simp_all add: plain_eval n lower_def)
qed

lemma py_float_inf: "py_float (str ''inf'') = Inr PosInf"
proof -
  have s: "str ''inf'' = [105, 110, 102]"
    by (simp add: str_def)
  have n: "parse_number [105, 110, 102] = None"
    by (simp add: number_eval)
  show ?thesis
    unfolding s by (subst py_float_plain) (simp_all add: plain_eval n lower_def)
qed

lemma py_float_abc: "py_float (str ''abc'') = Inl (ValueError (CouldNotConvertToFloat (str ''abc'')))"
proof -
  have s: "str ''abc'' = [97, 98, 99]"
    by (simp add: str_def)
  have n: "parse_number [97, 98, 99] = None"
    by (simp add: number_eval)
  show ?thesis
    unfolding s by (subst py_float_plain) (simp_all add: plain_eval n lower_def)
qed

lemma py_float_50_colon_x: "py_float (str ''50.0:x'') = Inl (ValueError (CouldNotConvertToFloat (str ''50.0:x'')))"
proof -
  have s: "str ''50.0:x'' = [53, 48, 46, 48, 58, 120]"
    by (simp add: str_def)
  have n: "parse_number [53, 48, 46, 48, 58, 120] = None"
    by (simp add: number_eval)
  show ?thesis
    unfolding s by (subst py_float_plain) (simp_all add: plain_eval n lower_def)
qed

lemma good_line:
  "decode_utf8 (ascii_bytes ''T:50.0,V:5.0,S:OK'' @ [10]) = Inr (str ''T:50.0,V:5.0,S:OK'' @ [10])"
  "py_strip (str ''T:50.0,V:5.0,S:OK'' @ [10]) = str ''T:50.0,V:5.0,S:OK''"
  "str ''T:50.0,V:5.0,S:OK'' \<noteq> []"
  by (simp_all add: decode_utf8_ascii ascii_bytes_def str_def py_strip_def strip_by_def
        py_isspace_def)

lemma parse_good_line:
  "parse_line (str ''T:50.0,V:5.0,S:OK'') = Inr (Fin 50, Fin 5, str ''OK'')"
proof -
  have 1: "py_split 44 (str ''T:50.0,V:5.0,S:OK'') = [str ''T:50.0'', str ''V:5.0'', str ''S:OK'']"
    by (simp add: str_def)
  have 2: "startswith (str ''T:50.0'') (str ''T:'')" "startswith (str ''V:5.0'') (str ''V:'')"
    "startswith (str ''S:OK'') (str ''S:'')"
    by (simp_all add: str_def startswith_def)
  have 3: "field_value (str ''T:50.0'') = str ''50.0''" "field_value (str ''V:5.0'') = str ''5.0''"
    "field_value (str ''S:OK'') = str ''OK''"
    by (simp_all add: str_def field_value_def)
  show ?thesis
    using parse_line_of_fields[OF 1 2] by (simp add: 3 py_float_50 py_float_5)
qed

lemma loop_body_good_line:
  assumes "rd t = Line (ascii_bytes ''T:50.0,V:5.0,S:OK'' @ [10])"
  shows "loop_body t s = process_line t (str ''T:50.0,V:5.0,S:OK'') s"
  using loop_body_line[OF assms good_line(1), of s] by (simp add: good_line)

lemma nan_line:
  "decode_utf8 (ascii_bytes ''T:nan,V:inf,S:OK'' @ [10]) = Inr (str ''T:nan,V:inf,S:OK'' @ [10])"
  "py_strip (str ''T:nan,V:inf,S:OK'' @ [10]) = str ''T:nan,V:inf,S:OK''"
  "str ''T:nan,V:inf,S:OK'' \<noteq> []"
  by (simp_all add: decode_utf8_ascii ascii_bytes_def str_def py_strip_def strip_by_def
        py_isspace_def)

lemma loop_body_nan_line:
  assumes "rd t = Line (ascii_bytes ''T:nan,V:inf,S:OK'' @ [10])"
  shows "loop_body t s = process_line t (str ''T:nan,V:inf,S:OK'') s"
  using loop_body_line[OF assms nan_line(1), of s] by (simp add: nan_line)

lemma abc_line:
  "decode_utf8 (ascii_bytes ''T:abc,V:5.0,S:OK'' @ [10]) = Inr (str ''T:abc,V:5.0,S:OK'' @ [10])"
  "py_strip (str ''T:abc,V:5.0,S:OK'' @ [10]) = str ''T:abc,V:5.0,S:OK''"
  "str ''T:abc,V:5.0,S:OK'' \<noteq> []"
  by (simp_all add: decode_utf8_ascii ascii_bytes_def str_def py_strip_def strip_by_def
        py_isspace_def)

lemma loop_body_abc_line:
  assumes "rd t = Line (ascii_bytes ''T:abc,V:5.0,S:OK'' @ [10])"
  shows "loop_body t s = process_line t (str ''T:abc,V:5.0,S:OK'') s"
  using loop_body_line[OF assms abc_line(1), of s] by (simp add: abc_line)

lemma spaced_line:
  "decode_utf8 (ascii_bytes ''T:50.0, V:5.0,S:OK'' @ [10]) = Inr (str ''T:50.0, V:5.0,S:OK'' @ [10])"
  "py_strip (str ''T:50.0, V:5.0,S:OK'' @ [10]) = str ''T:50.0, V:5.0,S:OK''"
  "str ''T:50.0, V:5.0,S:OK'' \<noteq> []"
  by (simp_all add: decode_utf8_ascii ascii_bytes_def str_def py_strip_def strip_by_def
        py_isspace_def)

lemma loop_body_spaced_line:
  assumes "rd t = Line (ascii_bytes ''T:50.0, V:5.0,S:OK'' @ [10])"
  shows "loop_body t s = process_line t (str ''T:50.0, V:5.0,S:OK'') s"
  using loop_body_line[OF assms spaced_line(1), of s] by (simp add: spaced_line)


lemma parse_nan_line:
  "parse_line (str ''T:nan,V:inf,S:OK'') = Inr (NaN, PosInf, str ''OK'')"
proof -
  have 1: "py_split 44 (str ''T:nan,V:inf,S:OK'') = [str ''T:nan'', str ''V:inf'', str ''S:OK'']"
    by (simp add: str_def)
  have 2: "startswith (str ''T:nan'') (str ''T:'')" "startswith (str ''V:inf'') (str ''V:'')"
    "startswith (str ''S:OK'') (str ''S:'')"
    by (simp_all add: str_def startswith_def)
  have 3: "field_value (str ''T:nan'') = str ''nan''" "field_value (str ''V:inf'') = str ''inf''"
    "field_value (str ''S:OK'') = str ''OK''"
    by (simp_all add: str_def field_value_def)
  show ?thesis
    using parse_line_of_fields[OF 1 2] by (simp add: 3 py_float_nan py_float_inf)
qed

lemma abc_line_fields:
  "three_fields (str ''T:abc,V:5.0,S:OK'')"
  "field_value (py_split 44 (str ''T:abc,V:5.0,S:OK'') ! 0) = str ''abc''"
  by (simp_all add: three_fields_def startswith_def field_value_def str_def)

lemma parse_abc_line:
  "parse_line (str ''T:abc,V:5.0,S:OK'')
     = Inl (ValueError (CouldNotConvertToFloat (str ''abc'')))"
  by (simp add: parse_line_eq abc_line_fields py_float_abc)

section \<open>Properties of the ingestion service\<close>

subsection \<open>Lines that are not valid UTF-8\<close>

text \<open>
  Claim C1, amended. \<open>ser.readline().decode('utf-8')\<close> on line 36 stands in the outer
  \<open>try\<close>, before the handlers that work on one line, and the outer \<open>try\<close> catches
  \<open>SerialException\<close> and \<open>KeyboardInterrupt\<close> only. When the service is running and the
  bytes received are not valid UTF-8, the \<open>UnicodeDecodeError\<close> leaves the loop: the
  service ends with this exception uncaught, the port is closed by the \<open>finally\<close> clause,
  nothing is added to the raw log, to the CSV file or to the error log, and no later line
  is processed.
\<close>

theorem undecodable_line_ends_the_service:
  assumes "phase s = RUNNING" and "rd t = Line bs" and "decode_utf8 bs = Inl e"
  shows "step s t = leave_loop UnicodeDecodeError s
         \<and> phase (step s t) = CRASHED UnicodeDecodeError
         \<and> \<not> port_open (step s t)
         \<and> error_log (step s t) = error_log s
         \<and> raw_log (step s t) = raw_log s
         \<and> csv_file (step s t) = csv_file s
         \<and> run (step s t) ts = step s t"
proof -
  have 1: "step s t = leave_loop UnicodeDecodeError s"
    by (simp add: step_def assms(1) loop_body_undecodable[OF assms(2,3)])
  have 2: "phase (leave_loop UnicodeDecodeError s) = CRASHED UnicodeDecodeError"
    by (simp add: leave_loop_fields)
  then have 3: "run (leave_loop UnicodeDecodeError s) ts = leave_loop UnicodeDecodeError s"
    by (simp add: run_left_loop)
  show ?thesis
    unfolding 1 using 2 3 by (simp add: leave_loop_fields)
qed

theorem undecodable_line_ends_the_service_witness:
  "phase listening = RUNNING
   \<and> decode_utf8 [0xFF, 0x41, 10] = Inl UnicodeDecodeError
   \<and> phase (step listening (received [0xFF, 0x41, 10] 1000)) = CRASHED UnicodeDecodeError
   \<and> \<not> port_open (step listening (received [0xFF, 0x41, 10] 1000))
   \<and> error_log (step listening (received [0xFF, 0x41, 10] 1000)) = []
   \<and> raw_log (step listening (received [0xFF, 0x41, 10] 1000)) = []
   \<and> csv_file (step listening (received [0xFF, 0x41, 10] 1000)) = [Header]
   \<and> run (step listening (received [0xFF, 0x41, 10] 1000)) [(received well_formed_line 2000)] = step listening (received [0xFF, 0x41, 10] 1000)"
proof -
  have d: "decode_utf8 [0xFF, 0x41, 10] = Inl UnicodeDecodeError"
    by (simp add: decode_utf8_def)
  have h1: "phase listening = RUNNING"
    by simp
  have h2: "rd (received [0xFF, 0x41, 10] 1000) = Line [0xFF, 0x41, 10]"
    by simp
  from undecodable_line_ends_the_service[OF h1 h2 d, of "[(received well_formed_line 2000)]", THEN conjunct2] d
  show ?thesis
    by simp
qed

text \<open>
  The claim as the specification has it does not hold. A line of bytes that are not UTF-8
  is followed by a well-formed line: no parse error is recorded for the first, the
  service has ended with the \<open>UnicodeDecodeError\<close>, and the second line is stored nowhere.
\<close>

theorem undecodable_line_counterexample:
  "error_log (run listening [(received [0xFF, 0x41, 10] 1000), (received well_formed_line 2000)]) = []
   \<and> phase (run listening [(received [0xFF, 0x41, 10] 1000), (received well_formed_line 2000)]) = CRASHED UnicodeDecodeError
   \<and> raw_log (run listening [(received [0xFF, 0x41, 10] 1000), (received well_formed_line 2000)]) = []
   \<and> csv_file (run listening [(received [0xFF, 0x41, 10] 1000), (received well_formed_line 2000)]) = [Header]"
proof -
  have d: "decode_utf8 [0xFF, 0x41, 10] = Inl UnicodeDecodeError"
    by (simp add: decode_utf8_def)
  have 1: "step listening (received [0xFF, 0x41, 10] 1000) = leave_loop UnicodeDecodeError listening"
    by (simp add: step_def loop_body_undecodable[OF _ d])
  have 2: "phase (leave_loop UnicodeDecodeError listening) \<noteq> RUNNING"
    by (simp add: leave_loop_fields)
  have "run listening [(received [0xFF, 0x41, 10] 1000), (received well_formed_line 2000)] = leave_loop UnicodeDecodeError listening"
    by (subst run_Cons) (simp add: 1 run_left_loop[OF 2])
  then show ?thesis
    by (simp add: leave_loop_fields)
qed

subsection \<open>What the parse branch accepts\<close>

text \<open>
  Claim C2, amended. Parsing succeeds if and only if the line splits on commas into
  exactly three fields with the prefixes \<open>T:\<close>, \<open>V:\<close>, \<open>S:\<close> and \<open>float()\<close> accepts, for
  fields 1 and 2, the text between the prefix and the next colon of the field (the whole
  remainder when the field has no other colon). On success the temperature and the
  voltage are the values of these texts, and the status token is the text of field 3
  between \<open>S:\<close> and the next colon (the whole remainder when there is none). Whatever
  follows a second colon in a field is ignored.
\<close>

theorem parse_line_reads_up_to_the_next_colon:
  "parse_line line =
     (if three_fields line then
        (case py_float (field_value (py_split 44 line ! 0)) of Inl e \<Rightarrow> Inl e | Inr temp \<Rightarrow>
        (case py_float (field_value (py_split 44 line ! 1)) of Inl e \<Rightarrow> Inl e | Inr volt \<Rightarrow>
           Inr (temp, volt, field_value (py_split 44 line ! 2))))
      else Inl (ValueError (MalformedDataStructure line)))
   \<and> ((\<exists>r. parse_line line = Inr r) \<longleftrightarrow>
        three_fields line
        \<and> (\<exists>temp. py_float (field_value (py_split 44 line ! 0)) = Inr temp)
        \<and> (\<exists>volt. py_float (field_value (py_split 44 line ! 1)) = Inr volt))"
proof -
  have "(\<exists>r. parse_line line = Inr r) \<longleftrightarrow>
        three_fields line
        \<and> (\<exists>temp. py_float (field_value (py_split 44 line ! 0)) = Inr temp)
        \<and> (\<exists>volt. py_float (field_value (py_split 44 line ! 1)) = Inr volt)"
    by (simp add: parse_line_eq split: sum.splits)
  then show ?thesis
    using parse_line_eq[of line] by blast
qed

text \<open>
  The claim as the specification has it does not hold. In \<open>T:50.0:x,V:5.0,S:A:B\<close> the
  remainder of field 1 after the prefix, \<open>50.0:x\<close>, is not a number, and the parser of the
  specification rejects the line; the code parses it, with the temperature 50.0. The
  status token it stores is \<open>A\<close>, not the remainder \<open>A:B\<close> of field 3, also in
  \<open>T:50.0,V:5.0,S:A:B\<close>, which the specification accepts with the status \<open>A:B\<close>.
\<close>

theorem parse_line_ignores_text_after_second_colon:
  "parse_line (str ''T:50.0:x,V:5.0,S:A:B'') = Inr (Fin 50, Fin 5, str ''A'')
   \<and> spec_parse_line (str ''T:50.0:x,V:5.0,S:A:B'') = None
   \<and> parse_line (str ''T:50.0,V:5.0,S:A:B'') = Inr (Fin 50, Fin 5, str ''A'')
   \<and> spec_parse_line (str ''T:50.0,V:5.0,S:A:B'') = Some (Fin 50, Fin 5, str ''A:B'')"
proof -
  have 1: "py_split 44 (str ''T:50.0:x,V:5.0,S:A:B'')
             = [str ''T:50.0:x'', str ''V:5.0'', str ''S:A:B'']"
    "py_split 44 (str ''T:50.0,V:5.0,S:A:B'') = [str ''T:50.0'', str ''V:5.0'', str ''S:A:B'']"
    by (simp_all add: str_def)
  have 2: "startswith (str ''T:50.0:x'') (str ''T:'')" "startswith (str ''V:5.0'') (str ''V:'')"
    "startswith (str ''S:A:B'') (str ''S:'')" "startswith (str ''T:50.0'') (str ''T:'')"
    by (simp_all add: str_def startswith_def)
  have 3: "field_value (str ''T:50.0:x'') = str ''50.0''" "field_value (str ''V:5.0'') = str ''5.0''"
    "field_value (str ''S:A:B'') = str ''A''" "field_value (str ''T:50.0'') = str ''50.0''"
    by (simp_all add: str_def field_value_def)
  have 4: "drop 2 (str ''T:50.0:x'') = str ''50.0:x''" "drop 2 (str ''V:5.0'') = str ''5.0''"
    "drop 2 (str ''S:A:B'') = str ''A:B''" "drop 2 (str ''T:50.0'') = str ''50.0''"
    by (simp_all add: str_def)
  have a: "parse_line (str ''T:50.0:x,V:5.0,S:A:B'') = Inr (Fin 50, Fin 5, str ''A'')"
    using parse_line_of_fields[OF 1(1) 2(1,2,3)] by (simp add: 3 py_float_50 py_float_5)
  have b: "parse_line (str ''T:50.0,V:5.0,S:A:B'') = Inr (Fin 50, Fin 5, str ''A'')"
    using parse_line_of_fields[OF 1(2) 2(4,2,3)] by (simp add: 3 py_float_50 py_float_5)
  have c: "spec_parse_line (str ''T:50.0:x,V:5.0,S:A:B'') = None"
    by (simp add: spec_parse_line_def three_fields_def 1 2 4 py_float_50_colon_x)
  have d: "spec_parse_line (str ''T:50.0,V:5.0,S:A:B'') = Some (Fin 50, Fin 5, str ''A:B'')"
    by (simp add: spec_parse_line_def three_fields_def 1 2 4 py_float_50 py_float_5)
  from a b c d show ?thesis
    by simp
qed

text \<open>
  Claim C10. The fields are the pieces between the commas as they are, and the prefixes
  are compared with their first two characters. When a piece after a comma (the piece at
  an index \<open>i > 0\<close>) begins with a white-space character, as in \<open>T:50.0, V:5.0,S:OK\<close>,
  the check of line 57 fails whatever else the line holds: the parse raises the
  \<open>ValueError\<close> of line 75, nothing is added to the CSV file, and the parse error is
  appended to the error log (when that file can be written).
\<close>

theorem space_after_comma_is_parse_error:
  assumes "rd t = Line bs" and "decode_utf8 bs = Inr txt" and "line = py_strip txt"
    and "0 < i" and "i < length (py_split 44 line)"
    and "py_split 44 line ! i = c # rest" and "py_isspace c"
  shows "parse_line line = Inl (ValueError (MalformedDataStructure line))
         \<and> loop_body t s =
             (log_error t line (ValueError (MalformedDataStructure line)) (log_raw t line s), None)
         \<and> csv_file (fst (loop_body t s)) = csv_file s
         \<and> (err_ok t \<longrightarrow>
              error_log (fst (loop_body t s)) =
                error_log s @ [\<lparr>pe_timestamp = now t,
                                 pe_error = ValueError (MalformedDataStructure line)\<rparr>])"
proof -
  let ?p = "py_split 44 line"
  have nospace: "\<not> py_isspace 86" "\<not> py_isspace 83"
    by (simp_all add: py_isspace_def)
  have "\<not> three_fields line"
  proof
    assume a: "three_fields line"
    then have "length ?p = 3"
      by (simp add: three_fields_def)
    with assms(4,5) have "i = 1 \<or> i = 2" by arith
    then show False
    proof
      assume "i = 1"
      with a assms(6) have "startswith (c # rest) [86, 58]"
        by (simp add: three_fields_def str_prefixes)
      then have "c = 86" by (simp add: startswith_def)
      with assms(7) nospace show False by simp
    next
      assume "i = 2"
      with a assms(6) have "startswith (c # rest) [83, 58]"
        by (simp add: three_fields_def str_prefixes)
      then have "c = 83" by (simp add: startswith_def)
      with assms(7) nospace show False by simp
    qed
  qed
  then have p: "parse_line line = Inl (ValueError (MalformedDataStructure line))"
    by (rule parse_line_malformed)
  have "line \<noteq> []"
    using assms(4,5) by auto
  with assms(1-3) have "loop_body t s = process_line t line s"
    by (simp add: loop_body_line)
  with p have b: "loop_body t s =
      (log_error t line (ValueError (MalformedDataStructure line)) (log_raw t line s), None)"
    by (simp add: process_line_parse_error)
  from p b show ?thesis
    by (simp add: log_error_fields log_raw_fields)
qed

theorem space_after_comma_is_parse_error_witness:
  "decode_utf8 (ascii_bytes ''T:50.0, V:5.0,S:OK'' @ [10]) = Inr (str ''T:50.0, V:5.0,S:OK'' @ [10])
   \<and> py_strip (str ''T:50.0, V:5.0,S:OK'' @ [10]) = str ''T:50.0, V:5.0,S:OK''
   \<and> py_split 44 (str ''T:50.0, V:5.0,S:OK'') ! 1 = 32 # str ''V:5.0''
   \<and> py_isspace 32
   \<and> parse_line (str ''T:50.0, V:5.0,S:OK'') = Inl (ValueError (MalformedDataStructure (str ''T:50.0, V:5.0,S:OK'')))
   \<and> csv_file (fst (loop_body (received (ascii_bytes ''T:50.0, V:5.0,S:OK'' @ [10]) 1000) listening)) = [Header]
   \<and> error_log (fst (loop_body (received (ascii_bytes ''T:50.0, V:5.0,S:OK'' @ [10]) 1000) listening)) =
       [\<lparr>pe_timestamp = 1000, pe_error = ValueError (MalformedDataStructure (str ''T:50.0, V:5.0,S:OK''))\<rparr>]"
proof -
  have h1: "rd (received (ascii_bytes ''T:50.0, V:5.0,S:OK'' @ [10]) 1000) = Line (ascii_bytes ''T:50.0, V:5.0,S:OK'' @ [10])"
    by simp
  have h4: "(0::nat) < 1"
    by simp
  have h5: "1 < length (py_split 44 (str ''T:50.0, V:5.0,S:OK''))"
    by (simp add: str_def)
  have h6: "py_split 44 (str ''T:50.0, V:5.0,S:OK'') ! 1 = 32 # str ''V:5.0''"
    by (simp add: str_def)
  have h7: "py_isspace 32"
    by (simp add: py_isspace_def)
  from space_after_comma_is_parse_error[OF h1 spaced_line(1) spaced_line(2)[symmetric] h4 h5 h6 h7,
      of listening] spaced_line h6 h7
  show ?thesis
    by (simp add: log_error_fields log_raw_fields)
qed

subsection \<open>The values that are stored\<close>

text \<open>
  Claim C3, amended. For every line of three fields in which \<open>float()\<close> rejects the text
  of the temperature or of the voltage, a parse error is recorded (when the error log
  can be written) and no row is added to the CSV file. The code has no test of
  finiteness: \<open>float()\<close> accepts \<open>nan\<close>, \<open>inf\<close> and \<open>infinity\<close> and rounds a number that is
  too large to infinity, and the row is then stored with the value that is not finite.
\<close>

theorem rejected_number_is_parse_error:
  assumes "three_fields line"
    and "isl (py_float (field_value (py_split 44 line ! 0)))
         \<or> isl (py_float (field_value (py_split 44 line ! 1)))"
  shows "\<exists>e. parse_line line = Inl e
             \<and> process_line t line s = (log_error t line e (log_raw t line s), None)
             \<and> csv_file (fst (process_line t line s)) = csv_file s
             \<and> (err_ok t \<longrightarrow>
                  error_log (fst (process_line t line s))
                    = error_log s @ [\<lparr>pe_timestamp = now t, pe_error = e\<rparr>])"
proof -
  have "\<exists>e. parse_line line = Inl e"
    unfolding parse_line_eq using assms
    by (cases "py_float (field_value (py_split 44 line ! 0))";
        cases "py_float (field_value (py_split 44 line ! 1))") simp_all
  then obtain e where p: "parse_line line = Inl e"
    by blast
  then have "process_line t line s = (log_error t line e (log_raw t line s), None)"
    by (rule process_line_parse_error)
  with p show ?thesis
    by (simp add: log_error_fields log_raw_fields)
qed

theorem rejected_number_is_parse_error_witness:
  "three_fields (str ''T:abc,V:5.0,S:OK'')
   \<and> py_float (field_value (py_split 44 (str ''T:abc,V:5.0,S:OK'') ! 0))
       = Inl (ValueError (CouldNotConvertToFloat (str ''abc'')))
   \<and> csv_file (fst (process_line (received (ascii_bytes ''T:abc,V:5.0,S:OK'' @ [10]) 1000) (str ''T:abc,V:5.0,S:OK'') listening)) = [Header]
   \<and> error_log (fst (process_line (received (ascii_bytes ''T:abc,V:5.0,S:OK'' @ [10]) 1000) (str ''T:abc,V:5.0,S:OK'') listening))
       = [\<lparr>pe_timestamp = 1000, pe_error = ValueError (CouldNotConvertToFloat (str ''abc''))\<rparr>]"
proof -
  have f: "py_float (field_value (py_split 44 (str ''T:abc,V:5.0,S:OK'') ! 0))
       = Inl (ValueError (CouldNotConvertToFloat (str ''abc'')))"
    by (simp add: abc_line_fields py_float_abc)
  then have h: "isl (py_float (field_value (py_split 44 (str ''T:abc,V:5.0,S:OK'') ! 0)))
         \<or> isl (py_float (field_value (py_split 44 (str ''T:abc,V:5.0,S:OK'') ! 1)))"
    by simp
  from rejected_number_is_parse_error[OF abc_line_fields(1) h, of "(received (ascii_bytes ''T:abc,V:5.0,S:OK'' @ [10]) 1000)" listening] f
  show ?thesis
    by (simp add: abc_line_fields(1) parse_abc_line log_error_fields log_raw_fields)
qed

text \<open>
  The claim as the specification has it does not hold. The line \<open>T:nan,V:inf,S:OK\<close> is
  parsed, and the row is stored with a temperature and a voltage that are not finite; no
  parse error is recorded.
\<close>

theorem non_finite_values_are_stored:
  "csv_file (step listening (received (ascii_bytes ''T:nan,V:inf,S:OK'' @ [10]) 1000))
     = [Header, Data \<lparr>timestamp = 1000, temperature = NaN, voltage = PosInf,
                      status_code = str ''OK''\<rparr>]
   \<and> error_log (step listening (received (ascii_bytes ''T:nan,V:inf,S:OK'' @ [10]) 1000)) = []
   \<and> \<not> is_finite NaN \<and> \<not> is_finite PosInf"
  by (simp add: step_def loop_body_nan_line process_line_parsed[OF parse_nan_line]
        log_raw_fields is_finite_def)

subsection \<open>Failures of the sinks\<close>

lemma process_line_exit:
  "snd (process_line t line s) =
     (case parse_line line of
        Inl e \<Rightarrow> None
      | Inr r \<Rightarrow>
          (case csv_append t of
             None \<Rightarrow> None
           | Some e \<Rightarrow> if caught_by_parse_handler e then None else Some e))"
proof (cases "parse_line line")
  case (Inl e)
  then show ?thesis
    by (simp add: process_line_parse_error)
next
  case (Inr r)
  then obtain x y st where "parse_line line = Inr (x, y, st)"
    by (cases r) auto
  then show ?thesis
    by (simp add: process_line_parsed split: option.splits)
qed

text \<open>
  A failure of the append to the raw log or to the error log is caught where it occurs
  and printed: as long as the append to the CSV file succeeds, a line that has been
  decoded leaves the service running.
\<close>

lemma raw_and_error_log_failures_are_recovered:
  assumes "phase s = RUNNING" and "rd t = Line bs" and "decode_utf8 bs = Inr txt"
    and "csv_append t = None"
  shows "phase (step s t) = RUNNING"
proof (cases "py_strip txt = []")
  case True
  then have "loop_body t s = (s, None)"
    by (simp add: loop_body_def assms)
  then show ?thesis
    by (simp add: step_def assms(1))
next
  case False
  then have b: "loop_body t s = process_line t (py_strip txt) s"
    using assms(2,3) by (rule loop_body_line[rotated 2])
  have "snd (process_line t (py_strip txt) s) = None"
    by (simp add: process_line_exit assms(4) split: sum.splits)
  then have "step s t = fst (process_line t (py_strip txt) s)"
    by (cases "process_line t (py_strip txt) s") (simp add: step_def assms(1) b)
  then show ?thesis
    by (simp add: process_line_phase assms(1))
qed

text \<open>
  The append to the CSV file stands in the parse \<open>try\<close>, whose handler does not catch
  \<open>OSError\<close>, and the outer \<open>try\<close> does not catch it either: when the file cannot be
  opened for a line that has been parsed, the exception leaves the loop and the service
  ends.
\<close>

lemma csv_failure_leaves_the_loop:
  assumes "phase s = RUNNING" and "rd t = Line bs" and "decode_utf8 bs = Inr txt"
    and "py_strip txt \<noteq> []" and "parse_line (py_strip txt) = Inr r"
    and "csv_append t = Some OSError"
  shows "step s t = leave_loop OSError (log_raw t (py_strip txt) s)"
    and "phase (step s t) = CRASHED OSError"
    and "run (step s t) ts = step s t"
proof -
  obtain x y st where r: "r = (x, y, st)"
    by (cases r) auto
  have b: "loop_body t s = process_line t (py_strip txt) s"
    using assms(2,3,4) by (rule loop_body_line)
  show 1: "step s t = leave_loop OSError (log_raw t (py_strip txt) s)"
    by (simp add: step_def assms(1) b process_line_parsed[OF assms(5)[unfolded r]] assms(6)
          caught_by_parse_handler_def)
  show 2: "phase (step s t) = CRASHED OSError"
    by (simp add: 1 leave_loop_fields)
  then show "run (step s t) ts = step s t"
    by (simp add: run_left_loop)
qed

text \<open>
  Claim C4. The claim does not hold for the structured store. A well-formed line arrives
  while the service is running and the CSV file cannot be opened for appending
  (\<open>OSError\<close>): the raw record is written, then the service ends with the exception
  uncaught and the port closed, nothing is logged for the failure, and the next line is
  not processed. The same line with a failing raw log, and a line that does not parse
  with a failing error log, leave the service running.
\<close>

theorem csv_append_failure_ends_the_service:
  "phase (step listening (\<lparr>rd = Line well_formed_line, now = 1000, raw_ok = True, csv_append = Some OSError, err_ok = True\<rparr>)) = CRASHED OSError
   \<and> \<not> port_open (step listening (\<lparr>rd = Line well_formed_line, now = 1000, raw_ok = True, csv_append = Some OSError, err_ok = True\<rparr>))
   \<and> csv_file (step listening (\<lparr>rd = Line well_formed_line, now = 1000, raw_ok = True, csv_append = Some OSError, err_ok = True\<rparr>)) = [Header]
   \<and> raw_log (step listening (\<lparr>rd = Line well_formed_line, now = 1000, raw_ok = True, csv_append = Some OSError, err_ok = True\<rparr>)) = [\<lparr>arrival = 1000, raw_line = str ''T:50.0,V:5.0,S:OK''\<rparr>]
   \<and> error_log (step listening (\<lparr>rd = Line well_formed_line, now = 1000, raw_ok = True, csv_append = Some OSError, err_ok = True\<rparr>)) = []
   \<and> run listening [\<lparr>rd = Line well_formed_line, now = 1000, raw_ok = True, csv_append = Some OSError, err_ok = True\<rparr>, (received well_formed_line 2000)] = step listening (\<lparr>rd = Line well_formed_line, now = 1000, raw_ok = True, csv_append = Some OSError, err_ok = True\<rparr>)
   \<and> phase (step listening (\<lparr>rd = Line well_formed_line, now = 1000, raw_ok = False, csv_append = None, err_ok = True\<rparr>)) = RUNNING
   \<and> phase (step listening (\<lparr>rd = Line (ascii_bytes ''T:abc,V:5.0,S:OK'' @ [10]), now = 1000, raw_ok = True, csv_append = None, err_ok = False\<rparr>)) = RUNNING"
proof -
  have 1: "step listening (\<lparr>rd = Line well_formed_line, now = 1000, raw_ok = True, csv_append = Some OSError, err_ok = True\<rparr>) = leave_loop OSError (log_raw (\<lparr>rd = Line well_formed_line, now = 1000, raw_ok = True, csv_append = Some OSError, err_ok = True\<rparr>) (str ''T:50.0,V:5.0,S:OK'') listening)"
    by (simp add: step_def loop_body_good_line process_line_parsed[OF parse_good_line]
          caught_by_parse_handler_def)
  have 2: "phase (step listening (\<lparr>rd = Line well_formed_line, now = 1000, raw_ok = True, csv_append = Some OSError, err_ok = True\<rparr>)) \<noteq> RUNNING"
    by (simp add: 1 leave_loop_fields)
  have 3: "run listening [\<lparr>rd = Line well_formed_line, now = 1000, raw_ok = True, csv_append = Some OSError, err_ok = True\<rparr>, (received well_formed_line 2000)] = step listening (\<lparr>rd = Line well_formed_line, now = 1000, raw_ok = True, csv_append = Some OSError, err_ok = True\<rparr>)"
    by (subst run_Cons) (simp only: run_left_loop[OF 2])
  have 4: "phase (step listening (\<lparr>rd = Line well_formed_line, now = 1000, raw_ok = False, csv_append = None, err_ok = True\<rparr>)) = RUNNING"
    by (simp add: step_def loop_body_good_line process_line_parsed[OF parse_good_line]
          log_raw_fields)
  have 5: "phase (step listening (\<lparr>rd = Line (ascii_bytes ''T:abc,V:5.0,S:OK'' @ [10]), now = 1000, raw_ok = True, csv_append = None, err_ok = False\<rparr>)) = RUNNING"
    by (simp add: step_def loop_body_abc_line process_line_parse_error[OF parse_abc_line]
          log_raw_fields log_error_fields)
  have 6: "phase (step listening (\<lparr>rd = Line well_formed_line, now = 1000, raw_ok = True, csv_append = Some OSError, err_ok = True\<rparr>)) = CRASHED OSError
   \<and> \<not> port_open (step listening (\<lparr>rd = Line well_formed_line, now = 1000, raw_ok = True, csv_append = Some OSError, err_ok = True\<rparr>))
   \<and> csv_file (step listening (\<lparr>rd = Line well_formed_line, now = 1000, raw_ok = True, csv_append = Some OSError, err_ok = True\<rparr>)) = [Header]
   \<and> raw_log (step listening (\<lparr>rd = Line well_formed_line, now = 1000, raw_ok = True, csv_append = Some OSError, err_ok = True\<rparr>)) = [\<lparr>arrival = 1000, raw_line = str ''T:50.0,V:5.0,S:OK''\<rparr>]
   \<and> error_log (step listening (\<lparr>rd = Line well_formed_line, now = 1000, raw_ok = True, csv_append = Some OSError, err_ok = True\<rparr>)) = []"
    by (simp add: 1 leave_loop_fields log_raw_fields)
  from 3 4 5 6 show ?thesis
    by blast
qed

subsection \<open>The rows of the CSV file\<close>

text \<open>
  Claim C5, amended. While the service runs the CSV file is append-only: after any
  number of iterations of the loop the file holds the rows it held before, in the same
  order, followed by the rows appended since; opening the port changes nothing in it.
  The start of the service is not included: section 3 of the script opens the file with
  mode \<open>'w'\<close> and writes the header row, so that every row stored by an earlier run is
  deleted (unless the file cannot be opened, and then it is left as it was).
\<close>

theorem rows_survive_the_loop_not_the_startup:
  "(\<exists>rows. csv_file (run s ts) = csv_file s @ rows)
   \<and> csv_file (connect port_ok s) = csv_file s
   \<and> csv_file (prepare_csv True s) = [Header]
   \<and> csv_file (prepare_csv False s) = csv_file s"
  using run_csv_file[of s ts]
  by (simp add: connect_def Let_def leave_loop_fields prepare_csv_def)

text \<open>
  The claim as the specification has it does not hold. The service is started on a CSV
  file that holds a row of an earlier run: after the start the row is gone.
\<close>

theorem startup_deletes_the_stored_rows:
  "csv_file (logger_service True True [] (\<lparr>raw_log = [], csv_file = [Header, Data (\<lparr>timestamp = 1000, temperature = Fin 50, voltage = Fin 5, status_code = str ''OK''\<rparr>)], error_log = [], console = [], port_open = False, phase = CONNECTING\<rparr>)) = [Header]
   \<and> Data (\<lparr>timestamp = 1000, temperature = Fin 50, voltage = Fin 5, status_code = str ''OK''\<rparr>) \<notin> set (csv_file (logger_service True True [] (\<lparr>raw_log = [], csv_file = [Header, Data (\<lparr>timestamp = 1000, temperature = Fin 50, voltage = Fin 5, status_code = str ''OK''\<rparr>)], error_log = [], console = [], port_open = False, phase = CONNECTING\<rparr>)))"
  by (simp add: logger_service_def run_Nil connect_def Let_def prepare_csv_def)

section \<open>The detectors\<close>

text \<open>
  On a frame whose column of time stamps is \<open>datetime64\<close>, lines 71 to 83 append, for
  the adjacent pairs \<open>(i - 1, i)\<close> with \<open>i \<ge> 1\<close> taken in order, exactly one CRITICAL
  \<open>HEARTBEAT_LOSS\<close> anomaly at the time stamp of row \<open>i\<close>, describing the gap, for each
  pair whose gap \<open>timestamp[i] - timestamp[i-1]\<close> is strictly greater than the timeout,
  and nothing for any other pair: a gap equal to the timeout does not fire.
\<close>

theorem heartbeat_fires_iff_gap_exceeds_timeout:
  "heartbeat_anomalies df =
     map (\<lambda>i. \<lparr>a_timestamp = timestamp (df ! i), a_type = HEARTBEAT_LOSS, a_severity = CRITICAL,
                a_description = NoDataReceivedFor (timestamp (df ! i) - timestamp (df ! (i - 1)))\<rparr>)
       (filter (\<lambda>i. timedelta_seconds HEARTBEAT_TIMEOUT_SECONDS
                       < timestamp (df ! i) - timestamp (df ! (i - 1)))
          [1..<length df])"
proof -
  let ?d = "diff_time (map timestamp df)"
  let ?lim = "timedelta_seconds HEARTBEAT_TIMEOUT_SECONDS"
  let ?mk = "\<lambda>(row, time_diff).
            \<lparr>a_timestamp = timestamp row, a_type = HEARTBEAT_LOSS, a_severity = CRITICAL,
             a_description = NoDataReceivedFor (case time_diff of None \<Rightarrow> 0 | Some g \<Rightarrow> g)\<rparr>"
  have z: "zip df ?d = map (\<lambda>i. (df ! i, ?d ! i)) [0..<length df]"
    by (rule zip_as_map_upt) (simp add: length_diff_time)
  have "heartbeat_anomalies df =
          map (\<lambda>i. ?mk (df ! i, ?d ! i)) (filter (\<lambda>i. timediff_gt (?d ! i) ?lim) [0..<length df])"
    unfolding heartbeat_anomalies_def z by (simp add: filter_map comp_def)
  also have "filter (\<lambda>i. timediff_gt (?d ! i) ?lim) [0..<length df]
             = filter (\<lambda>i. timediff_gt (?d ! i) ?lim) [1..<length df]"
  proof (cases "df = []")
    case False
    then have "\<not> timediff_gt (?d ! 0) ?lim"
      by (simp add: nth_diff_time timediff_gt_def)
    then show ?thesis by (rule filter_upt_drop_zero)
  qed simp
  also have "map (\<lambda>i. ?mk (df ! i, ?d ! i)) (filter (\<lambda>i. timediff_gt (?d ! i) ?lim) [1..<length df])
     = map (\<lambda>i. \<lparr>a_timestamp = timestamp (df ! i), a_type = HEARTBEAT_LOSS, a_severity = CRITICAL,
                a_description = NoDataReceivedFor (timestamp (df ! i) - timestamp (df ! (i - 1)))\<rparr>)
       (filter (\<lambda>i. ?lim < timestamp (df ! i) - timestamp (df ! (i - 1))) [1..<length df])"
    by (rule map_filter_upt_cong) (simp_all add: nth_diff_time timediff_gt_def)
  finally show ?thesis .
qed


lemma heartbeat_block_datetime64:
  "timestamp_dtype df = Datetime64 \<Longrightarrow> heartbeat_block df = Inr (heartbeat_anomalies df)"
  by (simp add: heartbeat_block_def)

lemma detection_datetime64:
  "timestamp_dtype df = Datetime64 \<Longrightarrow> detection df = Inr (report df)"
  by (simp add: detection_def heartbeat_block_def report_def anomalies_found_def Let_def)

lemma detection_object:
  "timestamp_dtype df = Object \<Longrightarrow> detection df = Inl TypeError"
  by (simp add: detection_def heartbeat_block_def)

text \<open>
  Claim C7. The claim does not hold on a file in which one time stamp fell on a whole
  second. The logger writes \<open>2024-01-01T00:00:01\<close> for the first row and
  \<open>2024-01-01T00:00:06.500000\<close> for the second, 5.5 seconds later. The gap is greater
  than the timeout of 4 seconds, but the column of time stamps is left as text, line 71
  raises \<open>TypeError\<close>, and the run ends without any anomaly reported. With the same gap
  between two time stamps that both have a fraction, exactly one CRITICAL
  \<open>HEARTBEAT_LOSS\<close> anomaly is reported at the second time stamp, with the gap.
\<close>

theorem heartbeat_loss_unreported_for_mixed_time_stamp_formats:
  "\<not> isoformat_has_fraction 1704067201000000000
   \<and> isoformat_has_fraction 1704067206500000000
   \<and> timedelta_seconds HEARTBEAT_TIMEOUT_SECONDS < 1704067206500000000 - 1704067201000000000
   \<and> timestamp_dtype [\<lparr>timestamp = 1704067201000000000, temperature = Fin 50, voltage = Fin 5, status_code = str ''OK''\<rparr>, \<lparr>timestamp = 1704067206500000000, temperature = Fin 50, voltage = Fin 5, status_code = str ''OK''\<rparr>] = Object
   \<and> heartbeat_block [\<lparr>timestamp = 1704067201000000000, temperature = Fin 50, voltage = Fin 5, status_code = str ''OK''\<rparr>, \<lparr>timestamp = 1704067206500000000, temperature = Fin 50, voltage = Fin 5, status_code = str ''OK''\<rparr>] = Inl TypeError
   \<and> detection [\<lparr>timestamp = 1704067201000000000, temperature = Fin 50, voltage = Fin 5, status_code = str ''OK''\<rparr>, \<lparr>timestamp = 1704067206500000000, temperature = Fin 50, voltage = Fin 5, status_code = str ''OK''\<rparr>] = Inl TypeError
   \<and> timestamp_dtype [\<lparr>timestamp = 1704067201250000000, temperature = Fin 50, voltage = Fin 5, status_code = str ''OK''\<rparr>, \<lparr>timestamp = 1704067206750000000, temperature = Fin 50, voltage = Fin 5, status_code = str ''OK''\<rparr>] = Datetime64
   \<and> detection [\<lparr>timestamp = 1704067201250000000, temperature = Fin 50, voltage = Fin 5, status_code = str ''OK''\<rparr>, \<lparr>timestamp = 1704067206750000000, temperature = Fin 50, voltage = Fin 5, status_code = str ''OK''\<rparr>]
       = Inr [\<lparr>a_timestamp = 1704067206750000000, a_type = HEARTBEAT_LOSS, a_severity = CRITICAL,
                a_description = NoDataReceivedFor 5500000000\<rparr>]"
proof -
  have 1: "\<not> isoformat_has_fraction 1704067201000000000" "isoformat_has_fraction 1704067206500000000"
    "isoformat_has_fraction 1704067201250000000" "isoformat_has_fraction 1704067206750000000"
    by (simp_all add: isoformat_has_fraction_def microsecond_def)
  have 2: "timedelta_seconds HEARTBEAT_TIMEOUT_SECONDS < 1704067206500000000 - 1704067201000000000"
    by (simp add: timedelta_seconds_def HEARTBEAT_TIMEOUT_SECONDS_def)
  have 3: "timestamp_dtype [\<lparr>timestamp = 1704067201000000000, temperature = Fin 50, voltage = Fin 5, status_code = str ''OK''\<rparr>, \<lparr>timestamp = 1704067206500000000, temperature = Fin 50, voltage = Fin 5, status_code = str ''OK''\<rparr>] = Object" "timestamp_dtype [\<lparr>timestamp = 1704067201250000000, temperature = Fin 50, voltage = Fin 5, status_code = str ''OK''\<rparr>, \<lparr>timestamp = 1704067206750000000, temperature = Fin 50, voltage = Fin 5, status_code = str ''OK''\<rparr>] = Datetime64"
    by (simp_all add: timestamp_dtype_def 1)
  have 4: "heartbeat_block [\<lparr>timestamp = 1704067201000000000, temperature = Fin 50, voltage = Fin 5, status_code = str ''OK''\<rparr>, \<lparr>timestamp = 1704067206500000000, temperature = Fin 50, voltage = Fin 5, status_code = str ''OK''\<rparr>] = Inl TypeError" "detection [\<lparr>timestamp = 1704067201000000000, temperature = Fin 50, voltage = Fin 5, status_code = str ''OK''\<rparr>, \<lparr>timestamp = 1704067206500000000, temperature = Fin 50, voltage = Fin 5, status_code = str ''OK''\<rparr>] = Inl TypeError"
    by (simp_all add: heartbeat_block_def detection_def 3)
  have 5: "temp_anomalies [\<lparr>timestamp = 1704067201250000000, temperature = Fin 50, voltage = Fin 5, status_code = str ''OK''\<rparr>, \<lparr>timestamp = 1704067206750000000, temperature = Fin 50, voltage = Fin 5, status_code = str ''OK''\<rparr>] = []" "voltage_anomalies [\<lparr>timestamp = 1704067201250000000, temperature = Fin 50, voltage = Fin 5, status_code = str ''OK''\<rparr>, \<lparr>timestamp = 1704067206750000000, temperature = Fin 50, voltage = Fin 5, status_code = str ''OK''\<rparr>] = []"
    by (simp_all add: temp_anomalies_def voltage_anomalies_def TEMP_THRESHOLD_def
          VOLTAGE_THRESHOLD_HIGH_def VOLTAGE_THRESHOLD_LOW_def flt_def)
  have 6: "roc_anomalies [\<lparr>timestamp = 1704067201250000000, temperature = Fin 50, voltage = Fin 5, status_code = str ''OK''\<rparr>, \<lparr>timestamp = 1704067206750000000, temperature = Fin 50, voltage = Fin 5, status_code = str ''OK''\<rparr>] = []"
    by (simp add: roc_anomalies_def TEMP_RATE_OF_CHANGE_THRESHOLD_def b64_def)
  have 7: "heartbeat_anomalies [\<lparr>timestamp = 1704067201250000000, temperature = Fin 50, voltage = Fin 5, status_code = str ''OK''\<rparr>, \<lparr>timestamp = 1704067206750000000, temperature = Fin 50, voltage = Fin 5, status_code = str ''OK''\<rparr>]
       = [\<lparr>a_timestamp = 1704067206750000000, a_type = HEARTBEAT_LOSS, a_severity = CRITICAL,
           a_description = NoDataReceivedFor 5500000000\<rparr>]"
    by (simp add: heartbeat_anomalies_def timediff_gt_def timedelta_seconds_def
          HEARTBEAT_TIMEOUT_SECONDS_def)
  have 8: "detection [\<lparr>timestamp = 1704067201250000000, temperature = Fin 50, voltage = Fin 5, status_code = str ''OK''\<rparr>, \<lparr>timestamp = 1704067206750000000, temperature = Fin 50, voltage = Fin 5, status_code = str ''OK''\<rparr>]
       = Inr [\<lparr>a_timestamp = 1704067206750000000, a_type = HEARTBEAT_LOSS, a_severity = CRITICAL,
                a_description = NoDataReceivedFor 5500000000\<rparr>]"
    by (simp add: detection_def heartbeat_block_def 3 5 6 7)
  from 1 2 3 4 8 show ?thesis
    by blast
qed

text \<open>
  Claim C8. The rate-of-change detector emits, for the adjacent pairs \<open>(i - 1, i)\<close> with
  \<open>i \<ge> 1\<close> of the frame, taken in order, one WARNING \<open>RAPID_CHANGE_TEMP\<close> anomaly at the time
  stamp of row \<open>i\<close>, describing the signed change, for each pair with
  \<open>abs(temperature[i] - temperature[i-1]) > TEMP_RATE_OF_CHANGE_THRESHOLD\<close>, and nothing
  else: the positions start at 1, so the first row never triggers the detector.
\<close>

theorem roc_fires_iff_change_exceeds_threshold:
  "roc_anomalies df =
     map (\<lambda>i. \<lparr>a_timestamp = timestamp (df ! i), a_type = RAPID_CHANGE_TEMP, a_severity = WARNING,
                a_description =
                  TemperatureChangedBy (fsub (temperature (df ! i)) (temperature (df ! (i - 1))))\<rparr>)
       (filter (\<lambda>i. fgt (fabs (fsub (temperature (df ! i)) (temperature (df ! (i - 1)))))
                       TEMP_RATE_OF_CHANGE_THRESHOLD)
          [1..<length df])"
proof -
  let ?d = "diff_float (map temperature df)"
  let ?lim = "TEMP_RATE_OF_CHANGE_THRESHOLD"
  let ?mk = "\<lambda>(row, temp_change).
            \<lparr>a_timestamp = timestamp row, a_type = RAPID_CHANGE_TEMP, a_severity = WARNING,
             a_description = TemperatureChangedBy temp_change\<rparr>"
  have z: "zip df ?d = map (\<lambda>i. (df ! i, ?d ! i)) [0..<length df]"
    by (rule zip_as_map_upt) (simp add: length_diff_float)
  have "roc_anomalies df =
          map (\<lambda>i. ?mk (df ! i, ?d ! i)) (filter (\<lambda>i. fgt (fabs (?d ! i)) ?lim) [0..<length df])"
    unfolding roc_anomalies_def z by (simp add: filter_map comp_def)
  also have "filter (\<lambda>i. fgt (fabs (?d ! i)) ?lim) [0..<length df]
             = filter (\<lambda>i. fgt (fabs (?d ! i)) ?lim) [1..<length df]"
  proof (cases "df = []")
    case False
    then have "\<not> fgt (fabs (?d ! 0)) ?lim"
      by (simp add: nth_diff_float)
    then show ?thesis by (rule filter_upt_drop_zero)
  qed simp
  also have "map (\<lambda>i. ?mk (df ! i, ?d ! i)) (filter (\<lambda>i. fgt (fabs (?d ! i)) ?lim) [1..<length df])
     = map (\<lambda>i. \<lparr>a_timestamp = timestamp (df ! i), a_type = RAPID_CHANGE_TEMP, a_severity = WARNING,
                a_description =
                  TemperatureChangedBy (fsub (temperature (df ! i)) (temperature (df ! (i - 1))))\<rparr>)
       (filter (\<lambda>i. fgt (fabs (fsub (temperature (df ! i)) (temperature (df ! (i - 1)))))
                       TEMP_RATE_OF_CHANGE_THRESHOLD) [1..<length df])"
    by (rule map_filter_upt_cong) (simp_all add: nth_diff_float)
  finally show ?thesis .
qed

section \<open>The report\<close>

text \<open>
  Claim C9. Whatever the order of the rows of the frame, the final anomaly sequence is
  sorted ascending by time stamp, and the anomalies of one time stamp appear in the order
  of the detectors: those of the temperature threshold, then those of the voltage
  threshold, then those of the rate of change, then those of the heartbeat loss (each
  detector's anomalies carry its own type).
\<close>

theorem report_sorted_ties_in_detector_order:
  "sorted (map a_timestamp (report df)) \<and>
   filter (\<lambda>a. a_timestamp a = t) (report df) =
     filter (\<lambda>a. a_timestamp a = t) (temp_anomalies df)
     @ filter (\<lambda>a. a_timestamp a = t) (voltage_anomalies df)
     @ filter (\<lambda>a. a_timestamp a = t) (roc_anomalies df)
     @ filter (\<lambda>a. a_timestamp a = t) (heartbeat_anomalies df) \<and>
   list_all (\<lambda>a. a_type a = THRESHOLD_BREACH_TEMP) (temp_anomalies df) \<and>
   list_all (\<lambda>a. a_type a = THRESHOLD_BREACH_VOLTAGE) (voltage_anomalies df) \<and>
   list_all (\<lambda>a. a_type a = RAPID_CHANGE_TEMP) (roc_anomalies df) \<and>
   list_all (\<lambda>a. a_type a = HEARTBEAT_LOSS) (heartbeat_anomalies df)"
proof -
  have s: "sorted (map a_timestamp (report df))"
    by (simp add: report_def Let_def)
  have "filter (\<lambda>a. a_timestamp a = t) (report df)
        = filter (\<lambda>a. a_timestamp a = t) (anomalies_found df)"
    by (simp add: report_def Let_def sort_key_stable)
  then have f: "filter (\<lambda>a. a_timestamp a = t) (report df) =
     filter (\<lambda>a. a_timestamp a = t) (temp_anomalies df)
     @ filter (\<lambda>a. a_timestamp a = t) (voltage_anomalies df)
     @ filter (\<lambda>a. a_timestamp a = t) (roc_anomalies df)
     @ filter (\<lambda>a. a_timestamp a = t) (heartbeat_anomalies df)"
    by (simp add: anomalies_found_def)
  have 1: "list_all (\<lambda>a. a_type a = THRESHOLD_BREACH_TEMP) (temp_anomalies df)"
    by (simp add: temp_anomalies_def list_all_iff)
  have 2: "list_all (\<lambda>a. a_type a = THRESHOLD_BREACH_VOLTAGE) (voltage_anomalies df)"
    by (simp add: voltage_anomalies_def list_all_iff)
  have 3: "list_all (\<lambda>a. a_type a = RAPID_CHANGE_TEMP) (roc_anomalies df)"
    by (auto simp: roc_anomalies_def list_all_iff)
  have 4: "list_all (\<lambda>a. a_type a = HEARTBEAT_LOSS) (heartbeat_anomalies df)"
    by (auto simp: heartbeat_anomalies_def list_all_iff)
  from s f 1 2 3 4 show ?thesis by blast
qed

end
